theory Spec2Isabelle
  imports Complex_Main
begin

section \<open>The model layer of \<^verbatim>\<open>infisical_sdk/api_types.py\<close>\<close>

text \<open>
  The module defines seven dataclasses over a common base class \<^verbatim>\<open>BaseModel\<close> and one
  string enumeration. \<^verbatim>\<open>BaseModel\<close> walks \<^verbatim>\<open>self.__dict__\<close> (\<^verbatim>\<open>to_dict\<close>) and calls
  the class with the mapping's entries as keyword arguments (\<^verbatim>\<open>from_dict\<close>); no field is
  ever checked against its annotation. The embedding therefore keeps Python's dynamic
  values: a field holds a \<open>pyval\<close>, an instance is its class together with its
  \<^verbatim>\<open>__dict__\<close>, and a \<^verbatim>\<open>dict\<close> is an association list in insertion order whose keys are
  strings (the keys of a decoded JSON object, and the only keys \<^verbatim>\<open>cls(**data)\<close> accepts).
  A \<^verbatim>\<open>dict\<close> has every key once; where a fact depends on that, it assumes the keys distinct.
  A \<^verbatim>\<open>float\<close> is the real number it denotes or one of the three values that are no number
  (\<^verbatim>\<open>0.0\<close> and \<^verbatim>\<open>-0.0\<close>, which \<^verbatim>\<open>==\<close> does not tell apart, are one value here); no function
  of the module inspects one.
\<close>

subsection \<open>Values\<close>

datatype ApprovalStatus = OPEN | APPROVED | REJECTED

fun enum_value :: "ApprovalStatus \<Rightarrow> string" where
  "enum_value OPEN = ''open''"
| "enum_value APPROVED = ''approved''"
| "enum_value REJECTED = ''rejected''"

datatype cls =
    SecretTag
  | SecretMetadata
  | BaseSecret
  | Import
  | ListSecretsResponse
  | SingleSecretResponse
  | MachineIdentityLoginResponse

datatype pyfloat = Finite real | PosInfinity | NegInfinity | NaN

datatype pyval =
    PyNone
  | PyBool bool
  | PyInt int
  | PyFloat pyfloat
  | PyStr string
  | PyEnum ApprovalStatus
  | PyList "pyval list"
  | PyDict "(string \<times> pyval) list"
  | PyObj model
and model = Model cls "(string \<times> pyval) list"

type_synonym dict = "(string \<times> pyval) list"

datatype error =
    TypeError
  | KeyError
  | AttributeError
  | FrozenInstanceError
  | JSONDecodeError

fun model_class :: "model \<Rightarrow> cls" where
  "model_class (Model c d) = c"

fun model_dict :: "model \<Rightarrow> dict" where
  "model_dict (Model c d) = d"

text \<open>\<^verbatim>\<open>d[key] = value\<close>: an existing key keeps its place, a new key goes last.\<close>

fun dict_set :: "dict \<Rightarrow> string \<Rightarrow> pyval \<Rightarrow> dict" where
  "dict_set [] key v = [(key, v)]"
| "dict_set ((k, w) # rest) key v =
     (if k = key then (k, v) # rest else (k, w) # dict_set rest key v)"

text \<open>
  The attribute \<open>name\<close> as the instance holds it, that is the entry of its \<^verbatim>\<open>__dict__\<close>;
  \<open>None\<close> where the instance has no such entry.
\<close>

definition getattr :: "model \<Rightarrow> string \<Rightarrow> pyval option" where
  "getattr m name = map_of (model_dict m) name"

subsection \<open>The dataclass declarations\<close>

text \<open>
  A field of a dataclass either has no default, or a default value; \<^verbatim>\<open>field(default_factory=list)\<close>
  gives a fresh empty list, which is the value \<open>PyList []\<close>.
\<close>

datatype default = Required | Default pyval

fun fields :: "cls \<Rightarrow> (string \<times> default) list" where
  "fields SecretTag =
     [(''id'', Required), (''slug'', Required), (''name'', Required),
      (''color'', Default PyNone)]"
| "fields SecretMetadata =
     [(''key'', Required), (''value'', Required)]"
| "fields BaseSecret =
     [(''id'', Required), (''_id'', Required), (''workspace'', Required),
      (''environment'', Required), (''version'', Required), (''type'', Required),
      (''secretKey'', Required), (''secretValue'', Required),
      (''secretComment'', Required), (''createdAt'', Required),
      (''updatedAt'', Required),
      (''secretReminderNote'', Default PyNone),
      (''secretReminderRepeatDays'', Default PyNone),
      (''skipMultilineEncoding'', Default (PyBool False)),
      (''metadata'', Default PyNone),
      (''secretMetadata'', Default (PyList [])),
      (''secretPath'', Default PyNone),
      (''tags'', Default (PyList []))]"
| "fields Import =
     [(''secretPath'', Required), (''environment'', Required),
      (''folderId'', Default PyNone), (''secrets'', Default (PyList []))]"
| "fields ListSecretsResponse =
     [(''secrets'', Required), (''imports'', Default (PyList []))]"
| "fields SingleSecretResponse =
     [(''secret'', Required)]"
| "fields MachineIdentityLoginResponse =
     [(''accessToken'', Required), (''expiresIn'', Required),
      (''accessTokenMaxTTL'', Required), (''tokenType'', Required)]"

text \<open>Only \<^verbatim>\<open>SecretTag\<close> is declared \<^verbatim>\<open>@dataclass(frozen=True)\<close>.\<close>

fun frozen :: "cls \<Rightarrow> bool" where
  "frozen SecretTag = True"
| "frozen c = False"

definition field_names :: "cls \<Rightarrow> string list" where
  "field_names c = map fst (fields c)"

text \<open>
  The generated \<^verbatim>\<open>__init__\<close> called with keyword arguments only: a keyword that names no
  field and a field without default that gets no argument both raise \<^verbatim>\<open>TypeError\<close>;
  otherwise every field is assigned, in declaration order, its argument or its default.
\<close>

fun init_value :: "dict \<Rightarrow> string \<times> default \<Rightarrow> string \<times> pyval" where
  "init_value kwargs (name, dflt) =
     (name, case map_of kwargs name of
              Some v \<Rightarrow> v
            | None \<Rightarrow> (case dflt of Default v \<Rightarrow> v | Required \<Rightarrow> PyNone))"

definition dataclass_init :: "cls \<Rightarrow> dict \<Rightarrow> error + model" where
  "dataclass_init c kwargs =
     (if list_ex (\<lambda>(key, v). key \<notin> set (field_names c)) kwargs then Inl TypeError
      else if list_ex (\<lambda>(name, dflt). dflt = Required \<and> map_of kwargs name = None) (fields c)
      then Inl TypeError
      else Inr (Model c (map (init_value kwargs) (fields c))))"

subsection \<open>\<^verbatim>\<open>BaseModel\<close>\<close>

text \<open>
  \<^verbatim>\<open>to_dict\<close>: the loop over \<^verbatim>\<open>self.__dict__.items()\<close> carries \<^verbatim>\<open>result\<close>; the list
  comprehension of the \<^verbatim>\<open>list\<close> branch is \<open>to_dict_items\<close>. Every class of the module
  derives from \<^verbatim>\<open>BaseModel\<close> and none overrides \<^verbatim>\<open>to_dict\<close>, so \<^verbatim>\<open>isinstance(value, BaseModel)\<close>
  holds exactly of the instances.
\<close>

fun to_dict :: "model \<Rightarrow> dict"
and to_dict_loop :: "dict \<Rightarrow> dict \<Rightarrow> dict"
and to_dict_items :: "pyval list \<Rightarrow> pyval list" where
  "to_dict (Model c d) = to_dict_loop d []"
| "to_dict_loop [] result = result"
| "to_dict_loop ((key, value) # rest) result =
     to_dict_loop rest
       (case value of
          PyNone \<Rightarrow> result
        | PyObj m \<Rightarrow> dict_set result key (PyDict (to_dict m))
        | PyList xs \<Rightarrow> dict_set result key (PyList (to_dict_items xs))
        | PyEnum e \<Rightarrow> dict_set result key (PyStr (enum_value e))
        | _ \<Rightarrow> dict_set result key value)"
| "to_dict_items [] = []"
| "to_dict_items (item # items) =
     (case item of PyObj m \<Rightarrow> PyDict (to_dict m) | _ \<Rightarrow> item) # to_dict_items items"

text \<open>
  \<^verbatim>\<open>from_dict\<close> of \<^verbatim>\<open>BaseModel\<close> is \<^verbatim>\<open>cls(**data)\<close>: \<^verbatim>\<open>**\<close> needs a mapping.
\<close>

fun BaseModel_from_dict :: "cls \<Rightarrow> pyval \<Rightarrow> error + model" where
  "BaseModel_from_dict c (PyDict kwargs) = dataclass_init c kwargs"
| "BaseModel_from_dict c data = Inl TypeError"

subsection \<open>The overriding \<^verbatim>\<open>from_dict\<close> of the response envelopes\<close>

text \<open>\<^verbatim>\<open>data[key]\<close>: only a \<^verbatim>\<open>dict\<close> can be subscripted with a string.\<close>

fun getitem :: "pyval \<Rightarrow> string \<Rightarrow> error + pyval" where
  "getitem (PyDict kvs) key =
     (case map_of kvs key of Some v \<Rightarrow> Inr v | None \<Rightarrow> Inl KeyError)"
| "getitem data key = Inl TypeError"

text \<open>\<^verbatim>\<open>data.get(key, dflt)\<close>: a method of \<^verbatim>\<open>dict\<close> only.\<close>

fun dict_get :: "pyval \<Rightarrow> string \<Rightarrow> pyval \<Rightarrow> error + pyval" where
  "dict_get (PyDict kvs) key dflt =
     Inr (case map_of kvs key of Some v \<Rightarrow> v | None \<Rightarrow> dflt)"
| "dict_get data key dflt = Inl AttributeError"

text \<open>
  \<^verbatim>\<open>for x in value\<close>: a list yields its elements, a \<^verbatim>\<open>dict\<close> its keys, a string (and a
  member of the string enumeration) its characters; nothing else is iterable.
\<close>

fun py_iter :: "pyval \<Rightarrow> error + pyval list" where
  "py_iter (PyList xs) = Inr xs"
| "py_iter (PyDict kvs) = Inr (map (\<lambda>(k, v). PyStr k) kvs)"
| "py_iter (PyStr s) = Inr (map (\<lambda>ch. PyStr [ch]) s)"
| "py_iter (PyEnum e) = Inr (map (\<lambda>ch. PyStr [ch]) (enum_value e))"
| "py_iter v = Inl TypeError"

text \<open>A list comprehension \<^verbatim>\<open>[f(x) for x in xs]\<close> stops at the first \<^verbatim>\<open>f(x)\<close> that raises.\<close>

fun list_comp :: "('a \<Rightarrow> error + 'b) \<Rightarrow> 'a list \<Rightarrow> error + 'b list" where
  "list_comp f [] = Inr []"
| "list_comp f (x # xs) =
     (case f x of
        Inl e \<Rightarrow> Inl e
      | Inr y \<Rightarrow> (case list_comp f xs of Inl e \<Rightarrow> Inl e | Inr ys \<Rightarrow> Inr (y # ys)))"

text \<open>
  \<^verbatim>\<open>BaseSecret\<close> and \<^verbatim>\<open>Import\<close> inherit \<^verbatim>\<open>from_dict\<close>, so \<^verbatim>\<open>BaseSecret.from_dict\<close> is
  \<open>BaseModel_from_dict BaseSecret\<close>. The keyword arguments are evaluated left to right.
\<close>

definition ListSecretsResponse_from_dict :: "pyval \<Rightarrow> error + model" where
  "ListSecretsResponse_from_dict data =
     (case getitem data ''secrets'' of
        Inl e \<Rightarrow> Inl e
      | Inr sv \<Rightarrow>
     (case py_iter sv of
        Inl e \<Rightarrow> Inl e
      | Inr raw_secrets \<Rightarrow>
     (case list_comp (BaseModel_from_dict BaseSecret) raw_secrets of
        Inl e \<Rightarrow> Inl e
      | Inr secrets \<Rightarrow>
     (case dict_get data ''imports'' (PyList []) of
        Inl e \<Rightarrow> Inl e
      | Inr iv \<Rightarrow>
     (case py_iter iv of
        Inl e \<Rightarrow> Inl e
      | Inr raw_imports \<Rightarrow>
     (case list_comp (BaseModel_from_dict Import) raw_imports of
        Inl e \<Rightarrow> Inl e
      | Inr imports \<Rightarrow>
          dataclass_init ListSecretsResponse
            [(''secrets'', PyList (map PyObj secrets)),
             (''imports'', PyList (map PyObj imports))]))))))"

definition SingleSecretResponse_from_dict :: "pyval \<Rightarrow> error + model" where
  "SingleSecretResponse_from_dict data =
     (case getitem data ''secret'' of
        Inl e \<Rightarrow> Inl e
      | Inr raw \<Rightarrow>
     (case BaseModel_from_dict BaseSecret raw of
        Inl e \<Rightarrow> Inl e
      | Inr secret \<Rightarrow>
          dataclass_init SingleSecretResponse [(''secret'', PyObj secret)]))"

text \<open>\<^verbatim>\<open>cls.from_dict(data)\<close> by method resolution.\<close>

fun from_dict :: "cls \<Rightarrow> pyval \<Rightarrow> error + model" where
  "from_dict ListSecretsResponse data = ListSecretsResponse_from_dict data"
| "from_dict SingleSecretResponse data = SingleSecretResponse_from_dict data"
| "from_dict c data = BaseModel_from_dict c data"

text \<open>
  \<^verbatim>\<open>from_json\<close>: \<^verbatim>\<open>json.loads\<close> belongs to the standard library and is a parameter here, a
  function from the text to the decoded value or the error it raises.
\<close>

definition from_json :: "(string \<Rightarrow> error + pyval) \<Rightarrow> cls \<Rightarrow> string \<Rightarrow> error + model" where
  "from_json loads c json_str =
     (case loads json_str of
        Inl e \<Rightarrow> Inl e
      | Inr data \<Rightarrow> from_dict c data)"

subsection \<open>Equality and assignment as the \<^verbatim>\<open>dataclass\<close> decorator generates them\<close>

text \<open>
  Reading the attribute \<^verbatim>\<open>m.name\<close>: the entry of the instance's \<^verbatim>\<open>__dict__\<close>, and without one
  the attribute of the class. The decorator leaves the default as a class attribute for a
  field declared with a default value, and no class attribute for a field without default
  or with \<^verbatim>\<open>default_factory\<close>; a default that is a list can only come from
  \<^verbatim>\<open>default_factory=list\<close>, since the decorator refuses a list as default value.
\<close>

definition class_attr :: "cls \<Rightarrow> string \<Rightarrow> pyval option" where
  "class_attr c name =
     (case map_of (fields c) name of
        Some (Default v) \<Rightarrow> (case v of PyList xs \<Rightarrow> None | _ \<Rightarrow> Some v)
      | _ \<Rightarrow> None)"

definition read_attr :: "cls \<Rightarrow> dict \<Rightarrow> string \<Rightarrow> pyval option" where
  "read_attr c d name =
     (case map_of d name of Some v \<Rightarrow> Some v | None \<Rightarrow> class_attr c name)"

text \<open>
  Python's \<^verbatim>\<open>==\<close> on the values of the model: \<^verbatim>\<open>bool\<close> is a subclass of \<^verbatim>\<open>int\<close>
  (\<^verbatim>\<open>True == 1\<close>), an \<^verbatim>\<open>int\<close> and a \<^verbatim>\<open>float\<close> compare by their exact values and \<^verbatim>\<open>nan\<close> is
  equal to nothing, a member of \<^verbatim>\<open>ApprovalStatus\<close> is a \<^verbatim>\<open>str\<close> and compares as its value,
  lists compare elementwise, dicts by their entries whatever the order, and two dataclass
  instances are equal when they have the same class and the tuples of their declared
  fields, read as attributes, are equal. Two things are outside the model. Containers
  compare their elements with \<^verbatim>\<open>is\<close> before \<^verbatim>\<open>==\<close>, which matters for one and the same
  \<^verbatim>\<open>nan\<close> object only: the compared values are taken to be distinct objects. And reading
  an attribute that neither the instance nor the class has raises \<^verbatim>\<open>AttributeError\<close>: no
  constructor and no assignment produces such an instance, and the comparison is \<open>False\<close>
  for it.
\<close>

fun float_eq :: "pyfloat \<Rightarrow> pyfloat \<Rightarrow> bool" where
  "float_eq (Finite x) (Finite y) = (x = y)"
| "float_eq PosInfinity PosInfinity = True"
| "float_eq NegInfinity NegInfinity = True"
| "float_eq f g = False"

fun int_float_eq :: "int \<Rightarrow> pyfloat \<Rightarrow> bool" where
  "int_float_eq i (Finite x) = (real_of_int i = x)"
| "int_float_eq i f = False"

function py_eq :: "pyval \<Rightarrow> pyval \<Rightarrow> bool"
and model_eq :: "model \<Rightarrow> model \<Rightarrow> bool" where
  "py_eq PyNone w = (w = PyNone)"
| "py_eq (PyBool a) w =
     (case w of
        PyBool b \<Rightarrow> a = b
      | PyInt j \<Rightarrow> (if a then 1 else 0) = j
      | PyFloat g \<Rightarrow> int_float_eq (if a then 1 else 0) g
      | _ \<Rightarrow> False)"
| "py_eq (PyInt i) w =
     (case w of
        PyBool b \<Rightarrow> i = (if b then 1 else 0)
      | PyInt j \<Rightarrow> i = j
      | PyFloat g \<Rightarrow> int_float_eq i g
      | _ \<Rightarrow> False)"
| "py_eq (PyFloat f) w =
     (case w of
        PyBool b \<Rightarrow> int_float_eq (if b then 1 else 0) f
      | PyInt j \<Rightarrow> int_float_eq j f
      | PyFloat g \<Rightarrow> float_eq f g
      | _ \<Rightarrow> False)"
| "py_eq (PyStr s) w =
     (case w of PyStr t \<Rightarrow> s = t | PyEnum e \<Rightarrow> s = enum_value e | _ \<Rightarrow> False)"
| "py_eq (PyEnum e) w =
     (case w of PyStr t \<Rightarrow> enum_value e = t | PyEnum e' \<Rightarrow> enum_value e = enum_value e'
      | _ \<Rightarrow> False)"
| "py_eq (PyList xs) w =
     (case w of PyList ys \<Rightarrow> list_all2 py_eq xs ys | _ \<Rightarrow> False)"
| "py_eq (PyDict a) w =
     (case w of
        PyDict b \<Rightarrow>
          length a = length b \<and>
          list_all (\<lambda>(k, v). case map_of b k of Some v' \<Rightarrow> py_eq v v' | None \<Rightarrow> False) a
      | _ \<Rightarrow> False)"
| "py_eq (PyObj m) w = (case w of PyObj m' \<Rightarrow> model_eq m m' | _ \<Rightarrow> False)"
| "model_eq (Model c a) (Model c' b) =
     (c = c' \<and>
      list_all (\<lambda>name. case read_attr c a name of
                          Some v \<Rightarrow> (case read_attr c b name of Some v' \<Rightarrow> py_eq v v' | None \<Rightarrow> False)
                        | None \<Rightarrow> False)
        (field_names c))"
  by pat_completeness auto

termination py_eq
proof -
  have entry: "size v < Suc (size_list (size_prod (\<lambda>x. 0) size) a)"
    if "(k, v) \<in> set a" for k :: string and v :: pyval and a
    using that by (induction a) auto
  have elem: "size z < Suc (size_list size xs)" if "z \<in> set xs" for z :: pyval and xs
    using that by (induction xs) auto
  have dflt: "size v = 0" if "class_attr c name = Some v" for c name v
    using that
    by (cases c) (auto simp: class_attr_def split: if_splits)
  have attr: "size v < Suc (size_list (size_prod (\<lambda>x. 0) size) a)"
    if "read_attr c a name = Some v" for c a name v
    using that by (auto simp: read_attr_def split: option.splits dest: map_of_SomeD entry dflt)
  show ?thesis
    by (relation "measure (\<lambda>x. case x of Inl (v, w) \<Rightarrow> size v | Inr (m, m') \<Rightarrow> size m)")
       (auto dest: map_of_SomeD entry elem attr)
qed

text \<open>
  The assignment \<^verbatim>\<open>m.name = v\<close>, as the outcome together with the instance afterwards: the
  \<^verbatim>\<open>__setattr__\<close> of a frozen dataclass raises \<^verbatim>\<open>FrozenInstanceError\<close> and stores nothing;
  any other instance stores the value in its \<^verbatim>\<open>__dict__\<close>.
\<close>

definition py_setattr :: "model \<Rightarrow> string \<Rightarrow> pyval \<Rightarrow> error option \<times> model" where
  "py_setattr m name v =
     (if frozen (model_class m) then (Some FrozenInstanceError, m)
      else (None, Model (model_class m) (dict_set (model_dict m) name v)))"

text \<open>
  A run of assignments \<^verbatim>\<open>m.k1 = v1; m.k2 = v2; ...\<close>, each attempted whatever the one before
  did: the outcomes in order, and the instance after the last.
\<close>

fun py_setattrs :: "model \<Rightarrow> (string \<times> pyval) list \<Rightarrow> error option list \<times> model" where
  "py_setattrs m [] = ([], m)"
| "py_setattrs m ((name, v) # rest) =
     (case py_setattr m name v of
        (outcome, m') \<Rightarrow>
          (case py_setattrs m' rest of (outcomes, m'') \<Rightarrow> (outcome # outcomes, m'')))"

subsection \<open>Notions used to state the properties\<close>

text \<open>What \<^verbatim>\<open>to_dict\<close> stores for a field whose value is not \<^verbatim>\<open>None\<close>.\<close>

definition field_value :: "pyval \<Rightarrow> pyval" where
  "field_value v =
     (case v of
        PyObj m \<Rightarrow> PyDict (to_dict m)
      | PyList xs \<Rightarrow> PyList (to_dict_items xs)
      | PyEnum e \<Rightarrow> PyStr (enum_value e)
      | _ \<Rightarrow> v)"

definition emitted :: "dict \<Rightarrow> dict" where
  "emitted d = map (\<lambda>(k, v). (k, field_value v)) (filter (\<lambda>(k, v). v \<noteq> PyNone) d)"

text \<open>
  A value is \<open>plain\<close> when \<^verbatim>\<open>to_dict\<close> stores it as it is: it is no instance, no member of
  the enumeration, and no list with an instance among its elements. Every value that
  \<^verbatim>\<open>json.loads\<close> returns is plain.
\<close>

fun is_obj :: "pyval \<Rightarrow> bool" where
  "is_obj (PyObj m) = True"
| "is_obj v = False"

fun plain :: "pyval \<Rightarrow> bool" where
  "plain (PyObj m) = False"
| "plain (PyEnum e) = False"
| "plain (PyList xs) = list_all (\<lambda>x. \<not> is_obj x) xs"
| "plain v = True"

text \<open>The fields declared with the default \<^verbatim>\<open>None\<close>.\<close>

definition default_none :: "cls \<Rightarrow> string \<Rightarrow> bool" where
  "default_none c name = (map_of (fields c) name = Some (Default PyNone))"

text \<open>
  An instance is \<open>stable\<close> when its \<^verbatim>\<open>__dict__\<close> has the declared fields in declaration
  order (as every constructed instance has), every field holds a plain value, and a field
  holds \<^verbatim>\<open>None\<close> only where \<^verbatim>\<open>None\<close> is the declared default.
\<close>

fun stable :: "model \<Rightarrow> bool" where
  "stable (Model c d) =
     (map fst d = field_names c \<and>
      list_all (\<lambda>(k, v). plain v \<and> (v \<noteq> PyNone \<or> default_none c k)) d)"

text \<open>The instances an instance holds in a field, directly or as elements of a list.\<close>

fun held_records :: "pyval \<Rightarrow> model list" where
  "held_records (PyObj m) = [m]"
| "held_records (PyList xs) = concat (map (\<lambda>x. case x of PyObj m \<Rightarrow> [m] | _ \<Rightarrow> []) xs)"
| "held_records v = []"

definition nested_records :: "model \<Rightarrow> model list" where
  "nested_records m = concat (map (\<lambda>(k, v). held_records v) (model_dict m))"

text \<open>The classes that inherit \<^verbatim>\<open>from_dict\<close> from \<^verbatim>\<open>BaseModel\<close>.\<close>

definition generic :: "cls \<Rightarrow> bool" where
  "generic c = (c \<noteq> ListSecretsResponse \<and> c \<noteq> SingleSecretResponse)"

text \<open>
  What is used of the standard library's \<^verbatim>\<open>json.loads\<close> beyond its being a function: its
  scanner accepts, besides the values of JSON, the three constants \<^verbatim>\<open>NaN\<close>, \<^verbatim>\<open>Infinity\<close>
  and \<^verbatim>\<open>-Infinity\<close> (\<^verbatim>\<open>parse_constant\<close>), which are no JSON, and returns the float.
\<close>

definition accepts_constants :: "(string \<Rightarrow> error + pyval) \<Rightarrow> bool" where
  "accepts_constants loads =
     (loads ''NaN'' = Inr (PyFloat NaN) \<and>
      loads ''Infinity'' = Inr (PyFloat PosInfinity) \<and>
      loads ''-Infinity'' = Inr (PyFloat NegInfinity))"

text \<open>
  The texts on which \<^verbatim>\<open>from_json\<close> is evaluated below, with the value \<^verbatim>\<open>json.loads\<close> returns
  for each: the three constants, and an object that holds \<^verbatim>\<open>NaN\<close>. \<open>sample_loads\<close> is
  \<^verbatim>\<open>json.loads\<close> on these texts; every other text it reports as a decode error, as
  \<^verbatim>\<open>json.loads\<close> does for the texts it refuses.
\<close>

definition metadata_NaN_text :: string where
  "metadata_NaN_text =
     [CHR ''{'', CHR 0x22] @ ''key'' @ [CHR 0x22] @ '': '' @ [CHR 0x22] @ ''k'' @ [CHR 0x22] @
     '', '' @ [CHR 0x22] @ ''value'' @ [CHR 0x22] @ '': NaN}''"

definition sample_loads :: "string \<Rightarrow> error + pyval" where
  "sample_loads s =
     (if s = ''NaN'' then Inr (PyFloat NaN)
      else if s = ''Infinity'' then Inr (PyFloat PosInfinity)
      else if s = ''-Infinity'' then Inr (PyFloat NegInfinity)
      else if s = metadata_NaN_text
        then Inr (PyDict [(''key'', PyStr ''k''), (''value'', PyFloat NaN)])
      else Inl JSONDecodeError)"

fun is_dict :: "pyval \<Rightarrow> bool" where
  "is_dict (PyDict kvs) = True"
| "is_dict v = False"

text \<open>
  The secret mapping of the specification's example (the required wire fields only), and
  the instances built from it without \<^verbatim>\<open>skipMultilineEncoding\<close> and with an explicit
  \<^verbatim>\<open>null\<close> for it.
\<close>

definition required_wire_fields :: dict where
  "required_wire_fields =
     [(''id'', PyStr ''1''), (''_id'', PyStr ''1''), (''workspace'', PyStr ''w''),
      (''environment'', PyStr ''dev''), (''version'', PyInt 1), (''type'', PyStr ''shared''),
      (''secretKey'', PyStr ''K''), (''secretValue'', PyStr ''V''),
      (''secretComment'', PyStr []), (''createdAt'', PyStr ''t''),
      (''updatedAt'', PyStr ''t'')]"

definition secret_with_skip :: "pyval \<Rightarrow> model" where
  "secret_with_skip skip =
     Model BaseSecret
       (required_wire_fields @
        [(''secretReminderNote'', PyNone), (''secretReminderRepeatDays'', PyNone),
         (''skipMultilineEncoding'', skip), (''metadata'', PyNone),
         (''secretMetadata'', PyList []), (''secretPath'', PyNone),
         (''tags'', PyList [])])"

text \<open>The keyword arguments of \<^verbatim>\<open>SecretTag(id=i, slug=s, name=n, color=c)\<close> at the annotated types.\<close>

fun opt_str :: "string option \<Rightarrow> pyval" where
  "opt_str None = PyNone"
| "opt_str (Some s) = PyStr s"

definition tag_kwargs :: "string \<Rightarrow> string \<Rightarrow> string \<Rightarrow> string option \<Rightarrow> dict" where
  "tag_kwargs i s n c =
     [(''id'', PyStr i), (''slug'', PyStr s), (''name'', PyStr n), (''color'', opt_str c)]"

section \<open>General facts\<close>

subsection \<open>\<^verbatim>\<open>to_dict\<close> on a \<^verbatim>\<open>__dict__\<close> with distinct keys\<close>

lemma to_dict_loop_Cons:
  "to_dict_loop ((k, v) # rest) result =
     to_dict_loop rest (if v = PyNone then result else dict_set result k (field_value v))"
  by (cases v) (simp_all add: field_value_def)

lemma dict_set_fresh: "key \<notin> fst ` set d \<Longrightarrow> dict_set d key v = d @ [(key, v)]"
  by (induction d) auto

lemma to_dict_loop_distinct:
  "distinct (map fst items) \<Longrightarrow> fst ` set items \<inter> fst ` set result = {} \<Longrightarrow>
   to_dict_loop items result = result @ emitted items"
proof (induction items arbitrary: result)
  case Nil
  then show ?case by (simp add: emitted_def)
next
  case (Cons kv items)
  obtain k v where kv: "kv = (k, v)" by (cases kv)
  show ?case
  proof (cases "v = PyNone")
    case True
    with Cons kv show ?thesis
      by (simp only: to_dict_loop_Cons) (auto simp: emitted_def)
  next
    case False
    from Cons.prems kv have fresh: "k \<notin> fst ` set result" by auto
    have "fst ` set items \<inter> fst ` set (result @ [(k, field_value v)]) = {}"
      using Cons.prems kv by (auto simp: image_iff)
    with Cons kv False fresh show ?thesis
      by (simp add: to_dict_loop_Cons dict_set_fresh emitted_def del: to_dict_loop.simps)
  qed
qed

lemma to_dict_distinct: "distinct (map fst d) \<Longrightarrow> to_dict (Model c d) = emitted d"
  by (simp add: to_dict_loop_distinct)

lemma map_of_emitted:
  "distinct (map fst d) \<Longrightarrow>
   map_of (emitted d) k =
     (case map_of d k of
        None \<Rightarrow> None
      | Some v \<Rightarrow> if v = PyNone then None else Some (field_value v))"
proof (induction d)
  case Nil
  then show ?case by (simp add: emitted_def)
next
  case (Cons kv d)
  obtain k' v' where kv: "kv = (k', v')" by (cases kv)
  from Cons.prems kv have "k' \<notin> fst ` set d" by simp
  then have "map_of d k' = None" by (simp add: map_of_eq_None_iff)
  with Cons kv show ?case
    by (auto simp: emitted_def split: option.splits)
qed

lemma to_dict_items_no_obj: "list_all (\<lambda>x. \<not> is_obj x) xs \<Longrightarrow> to_dict_items xs = xs"
proof (induction xs)
  case Nil
  then show ?case by simp
next
  case (Cons x xs)
  then show ?case by (cases x) simp_all
qed

lemma field_value_plain: "plain v \<Longrightarrow> field_value v = v"
  by (cases v) (simp_all add: field_value_def to_dict_items_no_obj)

lemma field_value_not_None: "v \<noteq> PyNone \<Longrightarrow> field_value v \<noteq> PyNone"
  by (cases v) (simp_all add: field_value_def)

lemma distinct_field_names: "distinct (field_names c)"
  by (cases c) (simp_all add: field_names_def)

lemma emitted_plain:
  "list_all (\<lambda>(k, v). plain v) d \<Longrightarrow> emitted d = filter (\<lambda>(k, v). v \<noteq> PyNone) d"
  by (induction d) (auto simp: emitted_def field_value_plain)

lemma rebuild_dict:
  "distinct (map fst d) \<Longrightarrow> map (\<lambda>k. (k, the (map_of d k))) (map fst d) = d"
proof (induction d)
  case Nil
  then show ?case by simp
next
  case (Cons kv d)
  obtain k v where kv: "kv = (k, v)" by (cases kv)
  from Cons.prems kv have "\<forall>x\<in>set d. fst x \<noteq> k" by auto
  then have "map (\<lambda>x. (fst x, the (map_of ((k, v) # d) (fst x)))) d
           = map (\<lambda>x. (fst x, the (map_of d (fst x)))) d"
    by (intro map_cong) auto
  with Cons kv show ?case by (simp add: comp_def)
qed

subsection \<open>The constructor\<close>

lemma map_of_filter_Some:
  "distinct (map fst d) \<Longrightarrow> (k, v) \<in> set d \<Longrightarrow> P (k, v) \<Longrightarrow> map_of (filter P d) k = Some v"
  by (rule map_of_is_SomeI) (auto simp: distinct_map_filter)

lemma map_of_filter_None:
  "distinct (map fst d) \<Longrightarrow> (k, v) \<in> set d \<Longrightarrow> \<not> P (k, v) \<Longrightarrow> map_of (filter P d) k = None"
proof -
  assume d: "distinct (map fst d)" and kv: "(k, v) \<in> set d" and n: "\<not> P (k, v)"
  have "k \<notin> fst ` set (filter P d)"
  proof
    assume "k \<in> fst ` set (filter P d)"
    then obtain w where w: "(k, w) \<in> set d" "P (k, w)" by auto
    from d kv w(1) have "w = v" by (meson eq_key_imp_eq_value)
    with w n show False by simp
  qed
  then show ?thesis by (simp add: map_of_eq_None_iff)
qed

lemma stable_roundtrip:
  assumes st: "stable (Model c d)"
  shows "dataclass_init c (to_dict (Model c d)) = Inr (Model c d)"
proof -
  let ?P = "\<lambda>(k, v). v \<noteq> PyNone"
  let ?d' = "filter ?P d"
  from st have keys: "map fst d = map fst (fields c)" by (simp add: field_names_def)
  from st have pl: "list_all (\<lambda>(k, v). plain v) d"
    by (auto simp: list_all_iff)
  from st have nn: "\<And>k. (k, PyNone) \<in> set d \<Longrightarrow> default_none c k"
    by (auto simp: list_all_iff)
  have dist: "distinct (map fst d)"
    using keys distinct_field_names [of c] by (simp add: field_names_def)
  have dictf: "distinct (map fst (fields c))"
    using distinct_field_names [of c] by (simp add: field_names_def)
  have td: "to_dict (Model c d) = ?d'"
    using dist pl by (simp add: to_dict_distinct emitted_plain del: to_dict.simps)
  have look: "map_of ?d' k = (if v = PyNone then None else Some v)" if "(k, v) \<in> set d" for k v
    using that dist by (auto simp: map_of_filter_Some map_of_filter_None)
  have c1: "\<not> list_ex (\<lambda>(key, v). key \<notin> set (field_names c)) ?d'"
  proof -
    have "fst ` set d = fst ` set (fields c)" using keys by (metis set_map)
    then show ?thesis by (force simp: list_ex_iff field_names_def)
  qed
  have val: "init_value ?d' (name, dflt) = (name, the (map_of d name)) \<and>
             \<not> (dflt = Required \<and> map_of ?d' name = None)"
    if nd: "(name, dflt) \<in> set (fields c)" for name dflt
  proof -
    from nd have "name \<in> set (map fst d)" unfolding keys by force
    then obtain v where v: "(name, v) \<in> set d" by auto
    from dist v have mv: "map_of d name = Some v" by (rule map_of_is_SomeI)
    from dictf nd have md: "map_of (fields c) name = Some dflt" by (rule map_of_is_SomeI)
    show ?thesis
    proof (cases "v = PyNone")
      case True
      with v nn have "default_none c name" by simp
      with md have "dflt = Default PyNone" by (simp add: default_none_def)
      with True v mv show ?thesis by (simp add: look)
    next
      case False
      with v mv show ?thesis by (simp add: look)
    qed
  qed
  have c2: "\<not> list_ex (\<lambda>(name, dflt). dflt = Required \<and> map_of ?d' name = None) (fields c)"
    unfolding list_ex_iff
  proof
    assume "\<exists>x\<in>set (fields c). case x of (name, dflt) \<Rightarrow> dflt = Required \<and> map_of ?d' name = None"
    then obtain name dflt where "(name, dflt) \<in> set (fields c)"
      and "dflt = Required \<and> map_of ?d' name = None" by auto
    with val [of name dflt] show False by blast
  qed
  have "map (init_value ?d') (fields c) = map (\<lambda>x. (fst x, the (map_of d (fst x)))) (fields c)"
  proof (rule map_cong [OF refl])
    fix x assume x: "x \<in> set (fields c)"
    obtain name dflt where nd: "x = (name, dflt)" by (cases x)
    with x val [of name dflt] show "init_value ?d' x = (fst x, the (map_of d (fst x)))" by simp
  qed
  also have "\<dots> = map (\<lambda>k. (k, the (map_of d k))) (map fst (fields c))"
    by (simp add: comp_def)
  also have "\<dots> = d" using rebuild_dict [OF dist] keys by simp
  finally have "map (init_value ?d') (fields c) = d" .
  with c1 c2 td show ?thesis by (simp add: dataclass_init_def del: to_dict.simps)
qed

lemma generic_from_dict: "generic c \<Longrightarrow> from_dict c data = BaseModel_from_dict c data"
  by (cases c) (simp_all add: generic_def)

lemma map_of_init:
  "map_of (map (init_value kwargs) fs) name =
     map_option (\<lambda>dflt. snd (init_value kwargs (name, dflt))) (map_of fs name)"
  by (induction fs) (auto split: option.splits)

lemma dataclass_init_Inr:
  "dataclass_init c kwargs = Inr m \<Longrightarrow>
     m = Model c (map (init_value kwargs) (fields c)) \<and>
     fst ` set kwargs \<subseteq> set (field_names c) \<and>
     (\<forall>name. (name, Required) \<in> set (fields c) \<longrightarrow> map_of kwargs name \<noteq> None)"
  by (auto simp: dataclass_init_def list_ex_iff split: if_splits)

subsection \<open>Keyword arguments\<close>

lemma field_lookup:
  "(name, dflt) \<in> set (fields c) \<Longrightarrow> map_of (fields c) name = Some dflt"
  using distinct_field_names [of c] by (simp add: field_names_def map_of_is_SomeI)

lemma init_keys: "map fst (map (init_value kwargs) fs) = map fst fs"
  by (induction fs) auto

lemma dataclass_init_extra:
  "(key, v) \<in> set kwargs \<Longrightarrow> key \<notin> set (field_names c) \<Longrightarrow> dataclass_init c kwargs = Inl TypeError"
  by (auto simp: dataclass_init_def list_ex_iff)

lemma dataclass_init_missing:
  "(name, Required) \<in> set (fields c) \<Longrightarrow> name \<notin> fst ` set kwargs \<Longrightarrow>
   dataclass_init c kwargs = Inl TypeError"
  by (auto simp: dataclass_init_def list_ex_iff map_of_eq_None_iff)

lemma dataclass_init_explicit_None:
  assumes dn: "default_none c name" and fresh: "name \<notin> fst ` set kwargs"
  shows "dataclass_init c (dict_set kwargs name PyNone) = dataclass_init c kwargs"
proof -
  let ?k' = "kwargs @ [(name, PyNone)]"
  from dn have look: "map_of (fields c) name = Some (Default PyNone)"
    by (simp add: default_none_def)
  then have mem: "name \<in> set (field_names c)"
    by (auto simp: field_names_def dest: map_of_SomeD intro: rev_image_eqI)
  from fresh have nk: "map_of kwargs name = None" by (simp add: map_of_eq_None_iff)
  have other: "map_of ?k' f = map_of kwargs f" if "f \<noteq> name" for f
    using that by (simp add: map_add_def split: option.splits)
  have this_one: "map_of ?k' name = Some PyNone"
    using nk by (simp add: map_add_def)
  have c1: "list_ex (\<lambda>(key, v). key \<notin> set (field_names c)) ?k'
          = list_ex (\<lambda>(key, v). key \<notin> set (field_names c)) kwargs"
    using mem by (simp add: list_ex_iff)
  have c2: "list_ex (\<lambda>(f, dflt). dflt = Required \<and> map_of ?k' f = None) (fields c)
          = list_ex (\<lambda>(f, dflt). dflt = Required \<and> map_of kwargs f = None) (fields c)"
  proof -
    have "(dflt = Required \<and> map_of ?k' f = None) = (dflt = Required \<and> map_of kwargs f = None)"
      if "(f, dflt) \<in> set (fields c)" for f dflt
    proof (cases "f = name")
      case True
      with that look have "dflt = Default PyNone" by (simp add: field_lookup)
      then show ?thesis by simp
    next
      case False
      with other [of f] show ?thesis by simp
    qed
    then show ?thesis unfolding list_ex_iff by blast
  qed
  have c3: "map (init_value ?k') (fields c) = map (init_value kwargs) (fields c)"
  proof (rule map_cong [OF refl])
    fix x assume x: "x \<in> set (fields c)"
    obtain f dflt where fd: "x = (f, dflt)" by (cases x)
    show "init_value ?k' x = init_value kwargs x"
    proof (cases "f = name")
      case True
      with x fd look have "dflt = Default PyNone" by (simp add: field_lookup)
      with True fd nk this_one show ?thesis by simp
    next
      case False
      with fd other [of f] show ?thesis by simp
    qed
  qed
  from fresh have "dict_set kwargs name PyNone = ?k'" by (rule dict_set_fresh)
  then show ?thesis
    unfolding dataclass_init_def by (simp only: c1 c2 c3)
qed

subsection \<open>List comprehensions and the envelopes\<close>

lemma list_comp_total:
  "\<forall>x\<in>set xs. \<exists>y. f x = Inr y \<Longrightarrow> \<exists>ys. list_comp f xs = Inr ys"
proof (induction xs)
  case Nil
  then show ?case by simp
next
  case (Cons x xs)
  then obtain y ys where "f x = Inr y" "list_comp f xs = Inr ys" by force
  then show ?case by simp
qed

lemma list_comp_error:
  assumes "x \<in> set xs" and "f x = Inl e" and same: "\<And>y e'. f y = Inl e' \<Longrightarrow> e' = e"
  shows "list_comp f xs = Inl e"
  using assms(1)
proof (induction xs)
  case Nil
  then show ?case by simp
next
  case (Cons a xs)
  show ?case
  proof (cases "f a")
    case (Inl e')
    with same [of a e'] show ?thesis by simp
  next
    case (Inr y)
    with assms(2) have "x \<noteq> a" by auto
    with Cons have "list_comp f xs = Inl e" by simp
    with Inr show ?thesis by simp
  qed
qed

lemma BaseModel_from_dict_error: "BaseModel_from_dict c data = Inl e \<Longrightarrow> e = TypeError"
  by (cases data) (auto simp: dataclass_init_def split: if_splits)

lemma init_ListSecretsResponse:
  "dataclass_init ListSecretsResponse [(''secrets'', a), (''imports'', b)]
     = Inr (Model ListSecretsResponse [(''secrets'', a), (''imports'', b)])"
  by (simp add: dataclass_init_def field_names_def)

lemma init_SingleSecretResponse:
  "dataclass_init SingleSecretResponse [(''secret'', a)]
     = Inr (Model SingleSecretResponse [(''secret'', a)])"
  by (simp add: dataclass_init_def field_names_def)

lemma BaseModel_from_dict_class: "BaseModel_from_dict c raw = Inr m \<Longrightarrow> model_class m = c"
  by (cases raw) (auto simp: dataclass_init_def split: if_splits)

lemma list_comp_class:
  "list_comp (BaseModel_from_dict c) raws = Inr ms \<Longrightarrow> \<forall>m\<in>set ms. model_class m = c"
proof (induction raws arbitrary: ms)
  case Nil
  then show ?case by simp
next
  case (Cons raw raws)
  from Cons.prems obtain m ms' where "BaseModel_from_dict c raw = Inr m"
    "list_comp (BaseModel_from_dict c) raws = Inr ms'" "ms = m # ms'"
    by (cases "BaseModel_from_dict c raw"; cases "list_comp (BaseModel_from_dict c) raws") auto
  with Cons.IH show ?case by (simp add: BaseModel_from_dict_class)
qed

lemma held_records_objs: "held_records (PyList (map PyObj ms)) = ms"
  by (induction ms) simp_all

lemma to_dict_items_objs: "to_dict_items (map PyObj ms) = map (\<lambda>m. PyDict (to_dict m)) ms"
  by (induction ms) simp_all

lemma stable_from_dict:
  "stable m \<Longrightarrow> BaseModel_from_dict (model_class m) (PyDict (to_dict m)) = Inr m"
  by (cases m) (simp add: stable_roundtrip del: to_dict.simps)

lemma list_comp_stable:
  "list_all stable ms \<Longrightarrow> \<forall>m\<in>set ms. model_class m = c \<Longrightarrow>
   list_comp (BaseModel_from_dict c) (map (\<lambda>m. PyDict (to_dict m)) ms) = Inr ms"
proof (induction ms)
  case Nil
  then show ?case by simp
next
  case (Cons m ms)
  then have "BaseModel_from_dict c (PyDict (to_dict m)) = Inr m"
    using stable_from_dict [of m] by simp
  with Cons show ?case by simp
qed

lemma ListSecretsResponse_from_dict_Inr:
  assumes "ListSecretsResponse_from_dict data = Inr x"
  shows "\<exists>raws ss rawi is.
           list_comp (BaseModel_from_dict BaseSecret) raws = Inr ss \<and>
           list_comp (BaseModel_from_dict Import) rawi = Inr is \<and>
           x = Model ListSecretsResponse
                 [(''secrets'', PyList (map PyObj ss)), (''imports'', PyList (map PyObj is))]"
proof -
  from assms obtain sv where 1: "getitem data ''secrets'' = Inr sv"
    by (cases "getitem data ''secrets''") (simp_all add: ListSecretsResponse_from_dict_def)
  from assms 1 obtain raws where 2: "py_iter sv = Inr raws"
    by (cases "py_iter sv") (simp_all add: ListSecretsResponse_from_dict_def)
  from assms 1 2 obtain ss where 3: "list_comp (BaseModel_from_dict BaseSecret) raws = Inr ss"
    by (cases "list_comp (BaseModel_from_dict BaseSecret) raws")
       (simp_all add: ListSecretsResponse_from_dict_def)
  from assms 1 2 3 obtain iv where 4: "dict_get data ''imports'' (PyList []) = Inr iv"
    by (cases "dict_get data ''imports'' (PyList [])")
       (simp_all add: ListSecretsResponse_from_dict_def)
  from assms 1 2 3 4 obtain rawi where 5: "py_iter iv = Inr rawi"
    by (cases "py_iter iv") (simp_all add: ListSecretsResponse_from_dict_def)
  from assms 1 2 3 4 5 obtain "is" where 6: "list_comp (BaseModel_from_dict Import) rawi = Inr is"
    by (cases "list_comp (BaseModel_from_dict Import) rawi")
       (simp_all add: ListSecretsResponse_from_dict_def)
  from assms 1 2 3 4 5 6 have "x = Model ListSecretsResponse
                 [(''secrets'', PyList (map PyObj ss)), (''imports'', PyList (map PyObj is))]"
    by (simp add: ListSecretsResponse_from_dict_def init_ListSecretsResponse)
  with 3 6 show ?thesis by blast
qed

lemma SingleSecretResponse_from_dict_Inr:
  assumes "SingleSecretResponse_from_dict data = Inr x"
  shows "\<exists>raw s. BaseModel_from_dict BaseSecret raw = Inr s \<and>
           x = Model SingleSecretResponse [(''secret'', PyObj s)]"
proof -
  from assms obtain raw where 1: "getitem data ''secret'' = Inr raw"
    by (cases "getitem data ''secret''") (simp_all add: SingleSecretResponse_from_dict_def)
  from assms 1 obtain s where 2: "BaseModel_from_dict BaseSecret raw = Inr s"
    by (cases "BaseModel_from_dict BaseSecret raw") (simp_all add: SingleSecretResponse_from_dict_def)
  from assms 1 2 have "x = Model SingleSecretResponse [(''secret'', PyObj s)]"
    by (simp add: SingleSecretResponse_from_dict_def init_SingleSecretResponse)
  with 2 show ?thesis by blast
qed

lemma ListSecretsResponse_roundtrip:
  assumes fd: "ListSecretsResponse_from_dict data = Inr x"
    and st: "list_all stable (nested_records x)"
  shows "ListSecretsResponse_from_dict (PyDict (to_dict x)) = Inr x"
proof -
  from fd obtain raws ss rawi "is" where
    ss: "list_comp (BaseModel_from_dict BaseSecret) raws = Inr ss" and
    "is": "list_comp (BaseModel_from_dict Import) rawi = Inr is" and
    x: "x = Model ListSecretsResponse
           [(''secrets'', PyList (map PyObj ss)), (''imports'', PyList (map PyObj is))]"
    using ListSecretsResponse_from_dict_Inr by blast
  from st x have sts: "list_all stable ss" and sti: "list_all stable is"
    by (simp_all add: nested_records_def held_records_objs del: held_records.simps)
  have td: "to_dict x =
      [(''secrets'', PyList (map (\<lambda>m. PyDict (to_dict m)) ss)),
       (''imports'', PyList (map (\<lambda>m. PyDict (to_dict m)) is))]"
    unfolding x by (simp add: to_dict_items_objs)
  have rs: "list_comp (BaseModel_from_dict BaseSecret) (map (\<lambda>m. PyDict (to_dict m)) ss) = Inr ss"
    using sts list_comp_class [OF ss] by (rule list_comp_stable)
  have ri: "list_comp (BaseModel_from_dict Import) (map (\<lambda>m. PyDict (to_dict m)) is) = Inr is"
    using sti list_comp_class [OF "is"] by (rule list_comp_stable)
  show ?thesis
    unfolding td by (simp add: ListSecretsResponse_from_dict_def rs ri init_ListSecretsResponse x)
qed

lemma SingleSecretResponse_roundtrip:
  assumes fd: "SingleSecretResponse_from_dict data = Inr x"
    and st: "list_all stable (nested_records x)"
  shows "SingleSecretResponse_from_dict (PyDict (to_dict x)) = Inr x"
proof -
  from fd obtain raw s where s: "BaseModel_from_dict BaseSecret raw = Inr s"
    and x: "x = Model SingleSecretResponse [(''secret'', PyObj s)]"
    using SingleSecretResponse_from_dict_Inr by blast
  from st x have "stable s" by (simp add: nested_records_def)
  then have "BaseModel_from_dict BaseSecret (PyDict (to_dict s)) = Inr s"
    using stable_from_dict [of s] BaseModel_from_dict_class [OF s] by simp
  moreover have "to_dict x = [(''secret'', PyDict (to_dict s))]"
    unfolding x by simp
  ultimately show ?thesis
    by (simp add: SingleSecretResponse_from_dict_def init_SingleSecretResponse x)
qed

lemma from_dict_not_dict: "\<not> is_dict data \<Longrightarrow> from_dict c data = Inl TypeError"
  by (cases c; cases data)
     (simp_all add: ListSecretsResponse_from_dict_def SingleSecretResponse_from_dict_def)

lemma from_dict_frozen_tag: "from_dict SecretTag data = Inr t \<Longrightarrow> frozen (model_class t)"
  using BaseModel_from_dict_class [of SecretTag data t] by simp

lemma py_setattrs_frozen:
  "frozen (model_class t) \<Longrightarrow>
   py_setattrs t attempts = (replicate (length attempts) (Some FrozenInstanceError), t)"
  by (induction attempts) (auto simp: py_setattr_def)

section \<open>The claims\<close>

text \<open>
  Claim C1, as amended. Let \<open>m\<close> be an instance of a class that inherits \<^verbatim>\<open>from_dict\<close>
  (\<^verbatim>\<open>SecretTag\<close>, \<^verbatim>\<open>SecretMetadata\<close>, \<^verbatim>\<open>BaseSecret\<close>, \<^verbatim>\<open>Import\<close>,
  \<^verbatim>\<open>MachineIdentityLoginResponse\<close>) with no nested record: every field holds a plain value.
  If moreover \<open>m\<close> holds \<^verbatim>\<open>None\<close> only in fields whose declared default is \<^verbatim>\<open>None\<close>,
  then \<^verbatim>\<open>from_dict(to_dict(m))\<close> returns an instance with the same class and the same
  \<^verbatim>\<open>__dict__\<close> as \<open>m\<close>.
\<close>

theorem roundtrip_generic_stable:
  "generic (model_class m) \<Longrightarrow> stable m \<Longrightarrow>
   from_dict (model_class m) (PyDict (to_dict m)) = Inr m"
proof -
  assume g: "generic (model_class m)" and st: "stable m"
  obtain c d where m: "m = Model c d" by (cases m)
  from st m have "dataclass_init c (to_dict (Model c d)) = Inr (Model c d)"
    by (simp only: stable_roundtrip)
  with g m show ?thesis by (simp add: generic_from_dict del: to_dict.simps)
qed

text \<open>The theorem at the secret built from the required wire fields only.\<close>

theorem roundtrip_generic_stable_witness:
  "generic (model_class (secret_with_skip (PyBool False))) \<and>
   stable (secret_with_skip (PyBool False)) \<and>
   from_dict BaseSecret (PyDict (to_dict (secret_with_skip (PyBool False))))
     = Inr (secret_with_skip (PyBool False))"
proof -
  have g: "generic (model_class (secret_with_skip (PyBool False)))"
    by (simp add: secret_with_skip_def generic_def)
  have s: "stable (secret_with_skip (PyBool False))"
    by (simp add: secret_with_skip_def required_wire_fields_def field_names_def default_none_def)
  have c: "model_class (secret_with_skip (PyBool False)) = BaseSecret"
    by (simp add: secret_with_skip_def)
  from roundtrip_generic_stable [OF g s] g s c show ?thesis by simp
qed

text \<open>
  Claim C1 as it is written fails without the condition on \<^verbatim>\<open>None\<close>: the secret decoded
  from the required wire fields and \<^verbatim>\<open>"skipMultilineEncoding": null\<close> holds only JSON
  primitives and empty lists; \<^verbatim>\<open>to_dict\<close> drops the key, \<^verbatim>\<open>from_dict\<close> then fills in the
  default \<^verbatim>\<open>False\<close>, and \<^verbatim>\<open>False == None\<close> does not hold.
\<close>

theorem roundtrip_null_skip_counterexample:
  "dataclass_init BaseSecret (required_wire_fields @ [(''skipMultilineEncoding'', PyNone)])
     = Inr (secret_with_skip PyNone) \<and>
   from_dict BaseSecret (PyDict (to_dict (secret_with_skip PyNone)))
     = Inr (secret_with_skip (PyBool False)) \<and>
   \<not> model_eq (secret_with_skip (PyBool False)) (secret_with_skip PyNone)"
  by (simp add: dataclass_init_def required_wire_fields_def secret_with_skip_def field_names_def
      read_attr_def)

text \<open>
  Claim C2. The inherited \<^verbatim>\<open>from_dict\<close> (the one of \<^verbatim>\<open>BaseSecret\<close> and \<^verbatim>\<open>Import\<close>) converts
  nothing: whenever it returns an instance, every entry of the mapping is the value of the
  field of that name, unchanged. A raw mapping, or a list of raw mappings, under
  \<^verbatim>\<open>secrets\<close>, \<^verbatim>\<open>tags\<close> or \<^verbatim>\<open>secretMetadata\<close> therefore stays a \<open>PyDict\<close> (a list of
  \<open>PyDict\<close>) and is no instance.
\<close>

theorem generic_from_dict_keeps_values:
  assumes "generic c" and "from_dict c (PyDict kvs) = Inr m" and "map_of kvs name = Some v"
  shows "getattr m name = Some v"
proof -
  from assms(1,2) have "dataclass_init c kvs = Inr m" by (simp add: generic_from_dict)
  then have m: "m = Model c (map (init_value kvs) (fields c))"
    and keys: "fst ` set kvs \<subseteq> set (field_names c)"
    by (simp_all add: dataclass_init_Inr)
  from assms(3) have "(name, v) \<in> set kvs" by (rule map_of_SomeD)
  with keys have "name \<in> set (field_names c)" by force
  then obtain dflt where "map_of (fields c) name = Some dflt"
    by (auto simp: field_names_def weak_map_of_SomeI dest!: weak_map_of_SomeI)
  with m assms(3) show ?thesis by (simp add: getattr_def map_of_init)
qed

text \<open>
  The specification's example: \<^verbatim>\<open>Import.from_dict\<close> with one raw secret mapping under
  \<^verbatim>\<open>secrets\<close>.
\<close>

theorem generic_from_dict_keeps_values_witness:
  "generic Import \<and>
   from_dict Import
     (PyDict [(''secretPath'', PyStr ''/''), (''environment'', PyStr ''dev''),
              (''secrets'', PyList [PyDict required_wire_fields])])
     = Inr (Model Import
         [(''secretPath'', PyStr ''/''), (''environment'', PyStr ''dev''),
          (''folderId'', PyNone), (''secrets'', PyList [PyDict required_wire_fields])]) \<and>
   getattr (Model Import
         [(''secretPath'', PyStr ''/''), (''environment'', PyStr ''dev''),
          (''folderId'', PyNone), (''secrets'', PyList [PyDict required_wire_fields])])
      ''secrets'' = Some (PyList [PyDict required_wire_fields])"
proof -
  let ?kvs = "[(''secretPath'', PyStr ''/''), (''environment'', PyStr ''dev''),
               (''secrets'', PyList [PyDict required_wire_fields])]"
  let ?m = "Model Import
         [(''secretPath'', PyStr ''/''), (''environment'', PyStr ''dev''),
          (''folderId'', PyNone), (''secrets'', PyList [PyDict required_wire_fields])]"
  have g: "generic Import" by (simp add: generic_def)
  have f: "from_dict Import (PyDict ?kvs) = Inr ?m"
    by (simp add: dataclass_init_def field_names_def)
  have l: "map_of ?kvs ''secrets'' = Some (PyList [PyDict required_wire_fields])" by simp
  from generic_from_dict_keeps_values [OF g f l] g f show ?thesis by simp
qed

text \<open>
  Claim C3, as amended. Let \<open>x\<close> be returned by the \<^verbatim>\<open>from_dict\<close> of \<^verbatim>\<open>ListSecretsResponse\<close>
  or of \<^verbatim>\<open>SingleSecretResponse\<close>. If every \<^verbatim>\<open>BaseSecret\<close> and \<^verbatim>\<open>Import\<close> that \<open>x\<close> holds is
  stable (its fields hold plain values, and \<^verbatim>\<open>None\<close> only where \<^verbatim>\<open>None\<close> is the declared
  default), then the same \<^verbatim>\<open>from_dict\<close> applied to \<^verbatim>\<open>x.to_dict()\<close> returns \<open>x\<close> again.
\<close>

theorem envelope_roundtrip_stable:
  assumes "c = ListSecretsResponse \<or> c = SingleSecretResponse"
    and "from_dict c data = Inr x"
    and "list_all stable (nested_records x)"
  shows "from_dict c (PyDict (to_dict x)) = Inr x"
  using assms
  by (auto simp del: to_dict.simps
      intro: ListSecretsResponse_roundtrip SingleSecretResponse_roundtrip)

text \<open>
  A list response with one secret and one import, both built from the required wire fields.
\<close>

theorem envelope_roundtrip_stable_witness:
  "from_dict ListSecretsResponse
     (PyDict [(''secrets'', PyList [PyDict required_wire_fields]),
              (''imports'', PyList [PyDict [(''secretPath'', PyStr ''/''),
                                             (''environment'', PyStr ''dev''),
                                             (''secrets'', PyList [PyDict required_wire_fields])]])])
     = Inr (Model ListSecretsResponse
         [(''secrets'', PyList [PyObj (secret_with_skip (PyBool False))]),
          (''imports'', PyList [PyObj (Model Import
              [(''secretPath'', PyStr ''/''), (''environment'', PyStr ''dev''),
               (''folderId'', PyNone),
               (''secrets'', PyList [PyDict required_wire_fields])])])]) \<and>
   from_dict ListSecretsResponse
     (PyDict (to_dict (Model ListSecretsResponse
         [(''secrets'', PyList [PyObj (secret_with_skip (PyBool False))]),
          (''imports'', PyList [PyObj (Model Import
              [(''secretPath'', PyStr ''/''), (''environment'', PyStr ''dev''),
               (''folderId'', PyNone),
               (''secrets'', PyList [PyDict required_wire_fields])])])])))
     = Inr (Model ListSecretsResponse
         [(''secrets'', PyList [PyObj (secret_with_skip (PyBool False))]),
          (''imports'', PyList [PyObj (Model Import
              [(''secretPath'', PyStr ''/''), (''environment'', PyStr ''dev''),
               (''folderId'', PyNone),
               (''secrets'', PyList [PyDict required_wire_fields])])])])"
proof -
  let ?imp = "Model Import
              [(''secretPath'', PyStr ''/''), (''environment'', PyStr ''dev''),
               (''folderId'', PyNone),
               (''secrets'', PyList [PyDict required_wire_fields])]"
  let ?x = "Model ListSecretsResponse
         [(''secrets'', PyList [PyObj (secret_with_skip (PyBool False))]),
          (''imports'', PyList [PyObj ?imp])]"
  let ?data = "PyDict [(''secrets'', PyList [PyDict required_wire_fields]),
              (''imports'', PyList [PyDict [(''secretPath'', PyStr ''/''),
                                             (''environment'', PyStr ''dev''),
                                             (''secrets'', PyList [PyDict required_wire_fields])]])]"
  have s: "BaseModel_from_dict BaseSecret (PyDict required_wire_fields)
      = Inr (secret_with_skip (PyBool False))"
    by (simp add: dataclass_init_def required_wire_fields_def secret_with_skip_def field_names_def)
  have i: "BaseModel_from_dict Import (PyDict [(''secretPath'', PyStr ''/''),
                                             (''environment'', PyStr ''dev''),
                                             (''secrets'', PyList [PyDict required_wire_fields])])
      = Inr ?imp"
    by (simp add: dataclass_init_def field_names_def)
  have f: "from_dict ListSecretsResponse ?data = Inr ?x"
    using s i by (simp add: ListSecretsResponse_from_dict_def init_ListSecretsResponse)
  have st1: "stable (secret_with_skip (PyBool False))"
    by (simp add: secret_with_skip_def required_wire_fields_def field_names_def default_none_def)
  have st2: "stable ?imp"
    by (simp add: field_names_def default_none_def)
  have n: "list_all stable (nested_records ?x)"
    using st1 st2 by (simp add: nested_records_def)
  have c: "ListSecretsResponse = ListSecretsResponse \<or> ListSecretsResponse = SingleSecretResponse"
    by simp
  from envelope_roundtrip_stable [OF c f n] f show ?thesis by simp
qed

text \<open>
  Claim C3 as it is written fails: the single-secret response decoded from a secret with
  \<^verbatim>\<open>"skipMultilineEncoding": null\<close> comes back from the round trip with
  \<^verbatim>\<open>skipMultilineEncoding = False\<close>, which is not equal to it.
\<close>

theorem envelope_null_skip_counterexample:
  "from_dict SingleSecretResponse
     (PyDict [(''secret'',
               PyDict (required_wire_fields @ [(''skipMultilineEncoding'', PyNone)]))])
     = Inr (Model SingleSecretResponse [(''secret'', PyObj (secret_with_skip PyNone))]) \<and>
   from_dict SingleSecretResponse
     (PyDict (to_dict (Model SingleSecretResponse [(''secret'', PyObj (secret_with_skip PyNone))])))
     = Inr (Model SingleSecretResponse [(''secret'', PyObj (secret_with_skip (PyBool False)))]) \<and>
   \<not> model_eq (Model SingleSecretResponse [(''secret'', PyObj (secret_with_skip (PyBool False)))])
               (Model SingleSecretResponse [(''secret'', PyObj (secret_with_skip PyNone))])"
  by (simp add: SingleSecretResponse_from_dict_def dataclass_init_def required_wire_fields_def
      secret_with_skip_def field_names_def read_attr_def)

text \<open>
  Claim C4. For every instance (its \<^verbatim>\<open>__dict__\<close> is a \<^verbatim>\<open>dict\<close>, so its keys are distinct) the
  keys of \<^verbatim>\<open>to_dict()\<close> are, in order, exactly the fields whose value is not \<^verbatim>\<open>None\<close>, and
  no entry of the result is \<^verbatim>\<open>None\<close>. In particular the \<^verbatim>\<open>BaseSecret\<close> built
  from the required wire fields serializes to those fields followed by
  \<^verbatim>\<open>skipMultilineEncoding: false\<close>, \<^verbatim>\<open>secretMetadata: []\<close> and \<^verbatim>\<open>tags: []\<close>, with no key
  \<^verbatim>\<open>secretReminderNote\<close>, \<^verbatim>\<open>secretReminderRepeatDays\<close>, \<^verbatim>\<open>metadata\<close> or \<^verbatim>\<open>secretPath\<close>.
\<close>

theorem to_dict_omits_exactly_None:
  assumes "distinct (map fst d)"
  shows "map fst (to_dict (Model c d)) = map fst (filter (\<lambda>(k, v). v \<noteq> PyNone) d) \<and>
         PyNone \<notin> snd ` set (to_dict (Model c d)) \<and>
         BaseModel_from_dict BaseSecret (PyDict required_wire_fields)
           = Inr (secret_with_skip (PyBool False)) \<and>
         to_dict (secret_with_skip (PyBool False))
           = required_wire_fields @
             [(''skipMultilineEncoding'', PyBool False), (''secretMetadata'', PyList []),
              (''tags'', PyList [])]"
proof -
  from assms have td: "to_dict (Model c d) = emitted d" by (rule to_dict_distinct)
  have "map fst (emitted d) = map fst (filter (\<lambda>(k, v). v \<noteq> PyNone) d)"
    by (induction d) (auto simp: emitted_def)
  moreover have "PyNone \<notin> snd ` set (emitted d)"
    by (auto simp: emitted_def dest: field_value_not_None [symmetric, THEN not_sym])
  moreover have "BaseModel_from_dict BaseSecret (PyDict required_wire_fields)
           = Inr (secret_with_skip (PyBool False))"
    by (simp add: dataclass_init_def required_wire_fields_def secret_with_skip_def field_names_def)
  moreover have "to_dict (secret_with_skip (PyBool False))
           = required_wire_fields @
             [(''skipMultilineEncoding'', PyBool False), (''secretMetadata'', PyList []),
              (''tags'', PyList [])]"
    by (simp add: required_wire_fields_def secret_with_skip_def)
  ultimately show ?thesis using td by (simp del: to_dict.simps)
qed

text \<open>A \<^verbatim>\<open>SecretTag\<close> without colour: the key \<^verbatim>\<open>color\<close> is not in the result.\<close>

theorem to_dict_omits_exactly_None_witness:
  "map fst (to_dict (Model SecretTag
      [(''id'', PyStr ''1''), (''slug'', PyStr ''s''), (''name'', PyStr ''n''),
       (''color'', PyNone)])) = [''id'', ''slug'', ''name'']"
  using to_dict_omits_exactly_None
          [of "[(''id'', PyStr ''1''), (''slug'', PyStr ''s''), (''name'', PyStr ''n''),
                (''color'', PyNone)]" SecretTag]
  by simp

text \<open>
  Claim C5, as amended. For a class that inherits \<^verbatim>\<open>from_dict\<close>, a mapping with a key that
  names no field, or without a key for a field that has no default, raises \<^verbatim>\<open>TypeError\<close>
  and no instance is returned. The two overriding \<^verbatim>\<open>from_dict\<close> raise \<^verbatim>\<open>KeyError\<close> when
  their key \<^verbatim>\<open>secrets\<close> (\<^verbatim>\<open>secret\<close>) is missing and \<^verbatim>\<open>TypeError\<close> when a secret mapping
  under it is refused; their result depends on the entries under \<^verbatim>\<open>secrets\<close> and
  \<^verbatim>\<open>imports\<close> (under \<^verbatim>\<open>secret\<close>) only, so any other key of the mapping is ignored.
\<close>

theorem from_dict_shape_errors:
  "(generic c \<and> (\<exists>key\<in>fst ` set kvs. key \<notin> set (field_names c)) \<longrightarrow>
      from_dict c (PyDict kvs) = Inl TypeError) \<and>
   (generic c \<and> (\<exists>name. (name, Required) \<in> set (fields c) \<and> name \<notin> fst ` set kvs) \<longrightarrow>
      from_dict c (PyDict kvs) = Inl TypeError) \<and>
   (''secrets'' \<notin> fst ` set kvs \<longrightarrow> from_dict ListSecretsResponse (PyDict kvs) = Inl KeyError) \<and>
   (''secret'' \<notin> fst ` set kvs \<longrightarrow> from_dict SingleSecretResponse (PyDict kvs) = Inl KeyError) \<and>
   (map_of kvs ''secret'' = Some raw \<and> BaseModel_from_dict BaseSecret raw = Inl e \<longrightarrow>
      from_dict SingleSecretResponse (PyDict kvs) = Inl TypeError) \<and>
   (map_of kvs ''secrets'' = Some (PyList raws) \<and> raw \<in> set raws \<and>
    BaseModel_from_dict BaseSecret raw = Inl e \<longrightarrow>
      from_dict ListSecretsResponse (PyDict kvs) = Inl TypeError) \<and>
   (map_of kvs ''secrets'' = map_of kvs' ''secrets'' \<and>
    map_of kvs ''imports'' = map_of kvs' ''imports'' \<longrightarrow>
      from_dict ListSecretsResponse (PyDict kvs) = from_dict ListSecretsResponse (PyDict kvs')) \<and>
   (map_of kvs ''secret'' = map_of kvs' ''secret'' \<longrightarrow>
      from_dict SingleSecretResponse (PyDict kvs) = from_dict SingleSecretResponse (PyDict kvs'))"
proof -
  have a: "from_dict c (PyDict kvs) = Inl TypeError"
    if "generic c" "\<exists>key\<in>fst ` set kvs. key \<notin> set (field_names c)"
    using that by (auto simp: generic_from_dict dataclass_init_extra)
  have b: "from_dict c (PyDict kvs) = Inl TypeError"
    if "generic c" "\<exists>name. (name, Required) \<in> set (fields c) \<and> name \<notin> fst ` set kvs"
    using that by (auto simp: generic_from_dict dataclass_init_missing)
  have c: "from_dict ListSecretsResponse (PyDict kvs) = Inl KeyError"
    if "''secrets'' \<notin> fst ` set kvs"
    using that by (simp add: ListSecretsResponse_from_dict_def map_of_eq_None_iff [THEN iffD2])
  have d: "from_dict SingleSecretResponse (PyDict kvs) = Inl KeyError"
    if "''secret'' \<notin> fst ` set kvs"
    using that by (simp add: SingleSecretResponse_from_dict_def map_of_eq_None_iff [THEN iffD2])
  have e: "from_dict SingleSecretResponse (PyDict kvs) = Inl TypeError"
    if "map_of kvs ''secret'' = Some raw" "BaseModel_from_dict BaseSecret raw = Inl e"
    using that BaseModel_from_dict_error [of BaseSecret raw e]
    by (simp add: SingleSecretResponse_from_dict_def)
  have f: "from_dict ListSecretsResponse (PyDict kvs) = Inl TypeError"
    if "map_of kvs ''secrets'' = Some (PyList raws)" "raw \<in> set raws"
       "BaseModel_from_dict BaseSecret raw = Inl e"
  proof -
    from that(3) have "BaseModel_from_dict BaseSecret raw = Inl TypeError"
      using BaseModel_from_dict_error by blast
    with that(2) have "list_comp (BaseModel_from_dict BaseSecret) raws = Inl TypeError"
      by (rule list_comp_error) (rule BaseModel_from_dict_error)
    with that(1) show ?thesis by (simp add: ListSecretsResponse_from_dict_def)
  qed
  have g: "from_dict ListSecretsResponse (PyDict kvs) = from_dict ListSecretsResponse (PyDict kvs')"
    if "map_of kvs ''secrets'' = map_of kvs' ''secrets''"
       "map_of kvs ''imports'' = map_of kvs' ''imports''"
  proof -
    from that have "getitem (PyDict kvs) ''secrets'' = getitem (PyDict kvs') ''secrets''"
      and "dict_get (PyDict kvs) ''imports'' (PyList []) = dict_get (PyDict kvs') ''imports'' (PyList [])"
      by simp_all
    then show ?thesis
      unfolding from_dict.simps ListSecretsResponse_from_dict_def by (simp only:)
  qed
  have h: "from_dict SingleSecretResponse (PyDict kvs) = from_dict SingleSecretResponse (PyDict kvs')"
    if "map_of kvs ''secret'' = map_of kvs' ''secret''"
    using that by (simp add: SingleSecretResponse_from_dict_def)
  from a b c d e f g h show ?thesis by blast
qed

text \<open>
  A \<^verbatim>\<open>SecretMetadata\<close> mapping with an extra key and one without \<^verbatim>\<open>value\<close>; the envelopes
  on the empty mapping and on a secret mapping without fields.
\<close>

theorem from_dict_shape_errors_witness:
  "from_dict SecretMetadata
     (PyDict [(''key'', PyStr ''k''), (''value'', PyStr ''v''), (''extra'', PyInt 1)])
     = Inl TypeError \<and>
   from_dict SecretMetadata (PyDict [(''key'', PyStr ''k'')]) = Inl TypeError \<and>
   from_dict ListSecretsResponse (PyDict []) = Inl KeyError \<and>
   from_dict SingleSecretResponse (PyDict []) = Inl KeyError \<and>
   from_dict SingleSecretResponse (PyDict [(''secret'', PyDict [])]) = Inl TypeError \<and>
   from_dict ListSecretsResponse (PyDict [(''secrets'', PyList [PyDict []])]) = Inl TypeError"
proof -
  have g: "generic SecretMetadata" by (simp add: generic_def)
  have x: "\<exists>key\<in>fst ` set [(''key'', PyStr ''k''), (''value'', PyStr ''v''), (''extra'', PyInt 1)].
             key \<notin> set (field_names SecretMetadata)"
    by (simp add: field_names_def)
  have m: "\<exists>name. (name, Required) \<in> set (fields SecretMetadata) \<and>
             name \<notin> fst ` set [(''key'', PyStr ''k'')]"
    by (rule exI [of _ "''value''"]) simp
  have b: "BaseModel_from_dict BaseSecret (PyDict []) = Inl TypeError"
    by (simp add: dataclass_init_def field_names_def)
  from from_dict_shape_errors
         [of SecretMetadata "[(''key'', PyStr ''k''), (''value'', PyStr ''v''), (''extra'', PyInt 1)]"]
       g x
  have 1: "from_dict SecretMetadata
     (PyDict [(''key'', PyStr ''k''), (''value'', PyStr ''v''), (''extra'', PyInt 1)])
     = Inl TypeError" by blast
  from from_dict_shape_errors [of SecretMetadata "[(''key'', PyStr ''k'')]"] g m
  have 2: "from_dict SecretMetadata (PyDict [(''key'', PyStr ''k'')]) = Inl TypeError" by blast
  from from_dict_shape_errors [of _ "[]"]
  have 3: "from_dict ListSecretsResponse (PyDict []) = Inl KeyError \<and>
           from_dict SingleSecretResponse (PyDict []) = Inl KeyError" by simp
  from from_dict_shape_errors [of _ "[(''secret'', PyDict [])]" "PyDict []" TypeError] b
  have 4: "from_dict SingleSecretResponse (PyDict [(''secret'', PyDict [])]) = Inl TypeError"
    by simp
  from from_dict_shape_errors
         [of _ "[(''secrets'', PyList [PyDict []])]" "PyDict []" TypeError "[PyDict []]"] b
  have 5: "from_dict ListSecretsResponse (PyDict [(''secrets'', PyList [PyDict []])]) = Inl TypeError"
    by simp
  from 1 2 3 4 5 show ?thesis by blast
qed

text \<open>
  Claim C5 as it is written fails for the envelopes: both accept a mapping with an
  unexpected extra key and return an instance.
\<close>

theorem envelope_extra_key_counterexample:
  "from_dict ListSecretsResponse (PyDict [(''secrets'', PyList []), (''unexpected'', PyInt 1)])
     = Inr (Model ListSecretsResponse [(''secrets'', PyList []), (''imports'', PyList [])]) \<and>
   from_dict SingleSecretResponse
     (PyDict [(''secret'', PyDict required_wire_fields), (''unexpected'', PyInt 1)])
     = Inr (Model SingleSecretResponse [(''secret'', PyObj (secret_with_skip (PyBool False)))])"
  by (simp add: ListSecretsResponse_from_dict_def SingleSecretResponse_from_dict_def
      dataclass_init_def field_names_def required_wire_fields_def secret_with_skip_def)

text \<open>
  Claim C6, as amended. For a mapping without the key \<^verbatim>\<open>imports\<close> whose \<^verbatim>\<open>secrets\<close> entry
  is a list of mappings that \<^verbatim>\<open>BaseSecret.from_dict\<close> accepts,
  \<^verbatim>\<open>ListSecretsResponse.from_dict\<close> returns an instance whose \<^verbatim>\<open>imports\<close> is the empty list;
  and whenever \<^verbatim>\<open>ListSecretsResponse.from_dict\<close> returns an instance, its \<^verbatim>\<open>imports\<close> field
  is present and holds a list (of \<^verbatim>\<open>Import\<close> instances).
\<close>

theorem imports_default_empty:
  "(map_of kvs ''secrets'' = Some (PyList raws) \<and> ''imports'' \<notin> fst ` set kvs \<and>
    (\<forall>raw\<in>set raws. \<exists>s. BaseModel_from_dict BaseSecret raw = Inr s) \<longrightarrow>
      (\<exists>x. from_dict ListSecretsResponse (PyDict kvs) = Inr x \<and>
           getattr x ''imports'' = Some (PyList []))) \<and>
   (from_dict ListSecretsResponse data = Inr y \<longrightarrow>
      (\<exists>imports. getattr y ''imports'' = Some (PyList (map PyObj imports))))"
proof -
  have a: "\<exists>x. from_dict ListSecretsResponse (PyDict kvs) = Inr x \<and>
           getattr x ''imports'' = Some (PyList [])"
    if s: "map_of kvs ''secrets'' = Some (PyList raws)" and i: "''imports'' \<notin> fst ` set kvs"
      and ok: "\<forall>raw\<in>set raws. \<exists>s. BaseModel_from_dict BaseSecret raw = Inr s"
  proof -
    from ok obtain secrets where "list_comp (BaseModel_from_dict BaseSecret) raws = Inr secrets"
      using list_comp_total by blast
    moreover from i have "map_of kvs ''imports'' = None" by (simp add: map_of_eq_None_iff)
    ultimately have "from_dict ListSecretsResponse (PyDict kvs)
        = Inr (Model ListSecretsResponse
                 [(''secrets'', PyList (map PyObj secrets)), (''imports'', PyList [])])"
      using s by (simp add: ListSecretsResponse_from_dict_def init_ListSecretsResponse)
    then show ?thesis by (simp add: getattr_def)
  qed
  have b: "\<exists>imports. getattr y ''imports'' = Some (PyList (map PyObj imports))"
    if "from_dict ListSecretsResponse data = Inr y"
    using that
    by (auto simp: ListSecretsResponse_from_dict_def init_ListSecretsResponse getattr_def
             split: sum.splits)
  from a b show ?thesis by blast
qed

text \<open>The specification's example, with one secret under \<^verbatim>\<open>secrets\<close>.\<close>

theorem imports_default_empty_witness:
  "from_dict ListSecretsResponse (PyDict [(''secrets'', PyList [PyDict required_wire_fields])])
     = Inr (Model ListSecretsResponse
             [(''secrets'', PyList [PyObj (secret_with_skip (PyBool False))]),
              (''imports'', PyList [])]) \<and>
   getattr (Model ListSecretsResponse
             [(''secrets'', PyList [PyObj (secret_with_skip (PyBool False))]),
              (''imports'', PyList [])]) ''imports'' = Some (PyList [])"
proof -
  let ?kvs = "[(''secrets'', PyList [PyDict required_wire_fields])]"
  have r: "BaseModel_from_dict BaseSecret (PyDict required_wire_fields)
      = Inr (secret_with_skip (PyBool False))"
    by (simp add: dataclass_init_def required_wire_fields_def secret_with_skip_def field_names_def)
  have h: "map_of ?kvs ''secrets'' = Some (PyList [PyDict required_wire_fields]) \<and>
           ''imports'' \<notin> fst ` set ?kvs \<and>
           (\<forall>raw\<in>set [PyDict required_wire_fields]. \<exists>s. BaseModel_from_dict BaseSecret raw = Inr s)"
    using r by simp
  from imports_default_empty [of ?kvs "[PyDict required_wire_fields]"] h
  obtain x where x: "from_dict ListSecretsResponse (PyDict ?kvs) = Inr x"
    "getattr x ''imports'' = Some (PyList [])" by blast
  have "from_dict ListSecretsResponse (PyDict ?kvs)
     = Inr (Model ListSecretsResponse
             [(''secrets'', PyList [PyObj (secret_with_skip (PyBool False))]),
              (''imports'', PyList [])])"
    using r by (simp add: ListSecretsResponse_from_dict_def init_ListSecretsResponse)
  with x show ?thesis by simp
qed

text \<open>
  Claim C6 as it is written fails: a mapping with the key \<^verbatim>\<open>secrets\<close> and without the key
  \<^verbatim>\<open>imports\<close> is refused when an entry of \<^verbatim>\<open>secrets\<close> lacks the required fields of a secret.
\<close>

theorem invalid_secret_entry_counterexample:
  "map_of [(''secrets'', PyList [PyDict []])] ''secrets'' = Some (PyList [PyDict []]) \<and>
   ''imports'' \<notin> fst ` set [(''secrets'', PyList [PyDict []])] \<and>
   from_dict ListSecretsResponse (PyDict [(''secrets'', PyList [PyDict []])]) = Inl TypeError"
  by (simp add: ListSecretsResponse_from_dict_def dataclass_init_def field_names_def)

text \<open>
  Claim C7, as amended. For every class and every decoder: when \<^verbatim>\<open>json.loads\<close> raises on the
  text, \<^verbatim>\<open>from_json\<close> raises that same error and returns no instance; when it returns a
  value, \<^verbatim>\<open>from_json\<close> is \<^verbatim>\<open>cls.from_dict\<close> of that value, which raises \<^verbatim>\<open>TypeError\<close>
  when the value is no mapping. On the texts \<^verbatim>\<open>NaN\<close>, \<^verbatim>\<open>Infinity\<close> and \<^verbatim>\<open>-Infinity\<close>, which
  are no JSON and which \<^verbatim>\<open>json.loads\<close> accepts, \<^verbatim>\<open>from_json\<close> therefore raises
  \<^verbatim>\<open>TypeError\<close> and no decode error.
\<close>

theorem from_json_propagates:
  "(loads json_str = Inl e \<longrightarrow> from_json loads c json_str = Inl e) \<and>
   (loads json_str = Inr data \<longrightarrow> from_json loads c json_str = from_dict c data) \<and>
   (loads json_str = Inr data \<and> \<not> is_dict data \<longrightarrow>
      from_json loads c json_str = Inl TypeError) \<and>
   (accepts_constants loads \<longrightarrow>
      from_json loads c ''NaN'' = Inl TypeError \<and>
      from_json loads c ''Infinity'' = Inl TypeError \<and>
      from_json loads c ''-Infinity'' = Inl TypeError)"
proof -
  have a: "from_json loads c json_str = Inl e" if "loads json_str = Inl e"
    using that by (simp add: from_json_def)
  have b: "from_json loads c json_str = from_dict c data" if "loads json_str = Inr data"
    using that by (simp add: from_json_def)
  have c: "from_json loads c json_str = Inl TypeError"
    if "loads json_str = Inr data" "\<not> is_dict data"
    using that by (simp add: from_json_def from_dict_not_dict)
  have d: "from_json loads c ''NaN'' = Inl TypeError \<and>
      from_json loads c ''Infinity'' = Inl TypeError \<and>
      from_json loads c ''-Infinity'' = Inl TypeError" if "accepts_constants loads"
    using that by (simp add: accepts_constants_def from_json_def from_dict_not_dict)
  from a b c d show ?thesis by blast
qed

text \<open>
  With the sample of \<^verbatim>\<open>json.loads\<close>: the text \<^verbatim>\<open>{\<close> gives the decode error for the frozen
  tag as for the list envelope, and \<^verbatim>\<open>Infinity\<close> gives \<^verbatim>\<open>TypeError\<close>.
\<close>

theorem from_json_propagates_witness:
  "accepts_constants sample_loads \<and>
   from_json sample_loads SecretTag ''{'' = Inl JSONDecodeError \<and>
   from_json sample_loads ListSecretsResponse ''{'' = Inl JSONDecodeError \<and>
   from_json sample_loads SecretTag ''Infinity'' = Inl TypeError \<and>
   from_json sample_loads ListSecretsResponse ''-Infinity'' = Inl TypeError"
proof -
  have l: "sample_loads ''{'' = Inl JSONDecodeError"
    by (simp add: sample_loads_def metadata_NaN_text_def)
  have k: "accepts_constants sample_loads"
    by (simp add: accepts_constants_def sample_loads_def)
  from from_json_propagates [of sample_loads "''{''" JSONDecodeError SecretTag] l
  have 1: "from_json sample_loads SecretTag ''{'' = Inl JSONDecodeError" by blast
  from from_json_propagates [of sample_loads "''{''" JSONDecodeError ListSecretsResponse] l
  have 2: "from_json sample_loads ListSecretsResponse ''{'' = Inl JSONDecodeError" by blast
  from from_json_propagates [of sample_loads _ _ SecretTag] k
  have 3: "from_json sample_loads SecretTag ''Infinity'' = Inl TypeError" by blast
  from from_json_propagates [of sample_loads _ _ ListSecretsResponse] k
  have 4: "from_json sample_loads ListSecretsResponse ''-Infinity'' = Inl TypeError" by blast
  from k 1 2 3 4 show ?thesis by blast
qed

text \<open>
  Claim C7 as it is written fails at text that is no JSON and that \<^verbatim>\<open>json.loads\<close> accepts:
  on \<^verbatim>\<open>NaN\<close> the call fails, but with \<^verbatim>\<open>TypeError\<close> from \<^verbatim>\<open>cls(**data)\<close> and not with a
  decode error; on the object with \<^verbatim>\<open>"value": NaN\<close>, \<^verbatim>\<open>SecretMetadata.from_json\<close> returns a
  record.
\<close>

theorem from_json_NaN_counterexample:
  "sample_loads ''NaN'' = Inr (PyFloat NaN) \<and>
   from_json sample_loads SecretTag ''NaN'' = Inl TypeError \<and>
   from_json sample_loads SecretTag ''NaN'' \<noteq> Inl JSONDecodeError \<and>
   sample_loads metadata_NaN_text
     = Inr (PyDict [(''key'', PyStr ''k''), (''value'', PyFloat NaN)]) \<and>
   from_json sample_loads SecretMetadata metadata_NaN_text
     = Inr (Model SecretMetadata [(''key'', PyStr ''k''), (''value'', PyFloat NaN)])"
  by (simp add: from_json_def sample_loads_def metadata_NaN_text_def dataclass_init_def
      field_names_def)

text \<open>
  Claim C8, as amended. For tags whose fields hold values of the annotated types (\<^verbatim>\<open>id\<close>,
  \<^verbatim>\<open>slug\<close>, \<^verbatim>\<open>name\<close> strings, \<^verbatim>\<open>color\<close> a string or \<^verbatim>\<open>None\<close>), \<^verbatim>\<open>from_dict\<close> builds the tag
  and two tags are equal under \<^verbatim>\<open>==\<close> exactly when all four fields are the same. For every
  tag that \<^verbatim>\<open>from_dict\<close> returns, whatever its fields hold, an assignment to any attribute
  raises \<^verbatim>\<open>FrozenInstanceError\<close> and leaves the tag as it was, and so does every
  assignment of any run of assignments.
\<close>

theorem SecretTag_typed_eq_frozen:
  "from_dict SecretTag (PyDict (tag_kwargs i s n c)) = Inr (Model SecretTag (tag_kwargs i s n c)) \<and>
   model_eq (Model SecretTag (tag_kwargs i s n c)) (Model SecretTag (tag_kwargs i' s' n' c'))
     = (i = i' \<and> s = s' \<and> n = n' \<and> c = c') \<and>
   (from_dict SecretTag data = Inr t \<longrightarrow>
      py_setattr t name v = (Some FrozenInstanceError, t) \<and>
      py_setattrs t attempts = (replicate (length attempts) (Some FrozenInstanceError), t))"
proof -
  have a: "from_dict SecretTag (PyDict (tag_kwargs i s n c))
      = Inr (Model SecretTag (tag_kwargs i s n c))"
    by (cases c) (simp_all add: dataclass_init_def tag_kwargs_def field_names_def)
  have b: "model_eq (Model SecretTag (tag_kwargs i s n c)) (Model SecretTag (tag_kwargs i' s' n' c'))
     = (i = i' \<and> s = s' \<and> n = n' \<and> c = c')"
    by (cases c; cases c') (auto simp: tag_kwargs_def field_names_def read_attr_def)
  have c: "py_setattr t name v = (Some FrozenInstanceError, t) \<and>
      py_setattrs t attempts = (replicate (length attempts) (Some FrozenInstanceError), t)"
    if "from_dict SecretTag data = Inr t"
    using from_dict_frozen_tag [OF that] by (simp add: py_setattr_def py_setattrs_frozen)
  from a b c show ?thesis by blast
qed

text \<open>
  The tag decoded from \<^verbatim>\<open>{"id": "1", "slug": "s", "name": "n"}\<close> and two assignments to it.
\<close>

theorem SecretTag_typed_eq_frozen_witness:
  "from_dict SecretTag (PyDict [(''id'', PyStr ''1''), (''slug'', PyStr ''s''), (''name'', PyStr ''n'')])
     = Inr (Model SecretTag (tag_kwargs ''1'' ''s'' ''n'' None)) \<and>
   py_setattr (Model SecretTag (tag_kwargs ''1'' ''s'' ''n'' None)) ''id'' (PyStr ''2'')
     = (Some FrozenInstanceError, Model SecretTag (tag_kwargs ''1'' ''s'' ''n'' None)) \<and>
   py_setattrs (Model SecretTag (tag_kwargs ''1'' ''s'' ''n'' None))
       [(''id'', PyStr ''2''), (''color'', PyStr ''red'')]
     = ([Some FrozenInstanceError, Some FrozenInstanceError],
        Model SecretTag (tag_kwargs ''1'' ''s'' ''n'' None))"
proof -
  have f: "from_dict SecretTag
       (PyDict [(''id'', PyStr ''1''), (''slug'', PyStr ''s''), (''name'', PyStr ''n'')])
     = Inr (Model SecretTag (tag_kwargs ''1'' ''s'' ''n'' None))"
    by (simp add: dataclass_init_def field_names_def tag_kwargs_def)
  from SecretTag_typed_eq_frozen
         [of _ _ _ _ _ _ _ _
             "PyDict [(''id'', PyStr ''1''), (''slug'', PyStr ''s''), (''name'', PyStr ''n'')]"
             "Model SecretTag (tag_kwargs ''1'' ''s'' ''n'' None)" "''id''" "PyStr ''2''"
             "[(''id'', PyStr ''2''), (''color'', PyStr ''red'')]"] f
  have "py_setattr (Model SecretTag (tag_kwargs ''1'' ''s'' ''n'' None)) ''id'' (PyStr ''2'')
     = (Some FrozenInstanceError, Model SecretTag (tag_kwargs ''1'' ''s'' ''n'' None)) \<and>
   py_setattrs (Model SecretTag (tag_kwargs ''1'' ''s'' ''n'' None))
       [(''id'', PyStr ''2''), (''color'', PyStr ''red'')]
     = (replicate (length [(''id'', PyStr ''2''), (''color'', PyStr ''red'')])
          (Some FrozenInstanceError),
        Model SecretTag (tag_kwargs ''1'' ''s'' ''n'' None))"
    by blast
  with f show ?thesis by (simp del: py_setattrs.simps)
qed

text \<open>
  Claim C8 as it is written fails for tags whose fields hold other values than strings,
  which \<^verbatim>\<open>from_dict\<close> builds without complaint: the tags decoded from \<^verbatim>\<open>"id": 1\<close> and from
  \<^verbatim>\<open>"id": true\<close> differ in the field \<^verbatim>\<open>id\<close> and are equal, since \<^verbatim>\<open>1 == True\<close>.
\<close>

theorem SecretTag_int_bool_counterexample:
  "from_dict SecretTag (PyDict [(''id'', PyInt 1), (''slug'', PyStr ''s''), (''name'', PyStr ''n'')])
     = Inr (Model SecretTag
         [(''id'', PyInt 1), (''slug'', PyStr ''s''), (''name'', PyStr ''n''),
          (''color'', PyNone)]) \<and>
   from_dict SecretTag
       (PyDict [(''id'', PyBool True), (''slug'', PyStr ''s''), (''name'', PyStr ''n'')])
     = Inr (Model SecretTag
         [(''id'', PyBool True), (''slug'', PyStr ''s''), (''name'', PyStr ''n''),
          (''color'', PyNone)]) \<and>
   getattr (Model SecretTag
         [(''id'', PyInt 1), (''slug'', PyStr ''s''), (''name'', PyStr ''n''),
          (''color'', PyNone)]) ''id''
     \<noteq> getattr (Model SecretTag
         [(''id'', PyBool True), (''slug'', PyStr ''s''), (''name'', PyStr ''n''),
          (''color'', PyNone)]) ''id'' \<and>
   model_eq
     (Model SecretTag
         [(''id'', PyInt 1), (''slug'', PyStr ''s''), (''name'', PyStr ''n''),
          (''color'', PyNone)])
     (Model SecretTag
         [(''id'', PyBool True), (''slug'', PyStr ''s''), (''name'', PyStr ''n''),
          (''color'', PyNone)])"
  by (simp add: dataclass_init_def field_names_def getattr_def read_attr_def)

text \<open>
  Claim C9. A field of an instance (whose \<^verbatim>\<open>__dict__\<close> has distinct keys, as every
  \<^verbatim>\<open>dict\<close> has) that holds a member of \<^verbatim>\<open>ApprovalStatus\<close> appears in the result of
  \<^verbatim>\<open>to_dict\<close> under its name with the member's string value, one of \<^verbatim>\<open>"open"\<close>,
  \<^verbatim>\<open>"approved"\<close>, \<^verbatim>\<open>"rejected"\<close>, and not with the member itself.
\<close>

theorem to_dict_enum_value:
  assumes "distinct (map fst d)" and "(k, PyEnum e) \<in> set d"
  shows "map_of (to_dict (Model c d)) k = Some (PyStr (enum_value e)) \<and>
         enum_value e \<in> {''open'', ''approved'', ''rejected''}"
proof -
  from assms have "map_of d k = Some (PyEnum e)" by (simp add: map_of_is_SomeI)
  with assms(1) have "map_of (to_dict (Model c d)) k = Some (PyStr (enum_value e))"
    by (simp add: to_dict_distinct map_of_emitted field_value_def del: to_dict.simps)
  moreover have "enum_value e \<in> {''open'', ''approved'', ''rejected''}" by (cases e) simp_all
  ultimately show ?thesis by simp
qed

text \<open>A \<^verbatim>\<open>SecretMetadata\<close> whose \<^verbatim>\<open>value\<close> holds \<^verbatim>\<open>ApprovalStatus.APPROVED\<close>.\<close>

theorem to_dict_enum_value_witness:
  "map_of (to_dict (Model SecretMetadata [(''key'', PyStr ''status''), (''value'', PyEnum APPROVED)]))
     ''value'' = Some (PyStr ''approved'')"
  using to_dict_enum_value
          [of "[(''key'', PyStr ''status''), (''value'', PyEnum APPROVED)]" "''value''" APPROVED
              SecretMetadata]
  by simp

text \<open>
  Claim C10, as amended. Let \<open>name\<close> be a field whose declared default is \<^verbatim>\<open>None\<close>, of a
  class that inherits \<^verbatim>\<open>from_dict\<close>, and let the mapping have no key \<open>name\<close>. Adding
  \<open>name\<close> with the value \<^verbatim>\<open>None\<close> changes nothing: \<^verbatim>\<open>from_dict\<close> fails or returns the
  very same instance as without the key, that instance holds \<^verbatim>\<open>None\<close> in the field, and
  its \<^verbatim>\<open>to_dict()\<close> has no key \<open>name\<close>. Adding a key that names no field makes
  \<^verbatim>\<open>from_dict\<close> raise \<^verbatim>\<open>TypeError\<close>.
\<close>

theorem explicit_None_like_absent:
  assumes "generic c" and "default_none c name" and "name \<notin> fst ` set kvs"
  shows "from_dict c (PyDict (dict_set kvs name PyNone)) = from_dict c (PyDict kvs) \<and>
         (\<forall>m. from_dict c (PyDict kvs) = Inr m \<longrightarrow>
              getattr m name = Some PyNone \<and> name \<notin> fst ` set (to_dict m)) \<and>
         (\<forall>key v. key \<notin> set (field_names c) \<longrightarrow>
              from_dict c (PyDict (dict_set kvs key v)) = Inl TypeError)"
proof -
  have a: "from_dict c (PyDict (dict_set kvs name PyNone)) = from_dict c (PyDict kvs)"
    using assms by (simp add: generic_from_dict dataclass_init_explicit_None)
  have b: "getattr m name = Some PyNone \<and> name \<notin> fst ` set (to_dict m)"
    if "from_dict c (PyDict kvs) = Inr m" for m
  proof -
    from that assms(1) have "dataclass_init c kvs = Inr m" by (simp add: generic_from_dict)
    then have m: "m = Model c (map (init_value kvs) (fields c))" by (simp add: dataclass_init_Inr)
    from assms(3) have nk: "map_of kvs name = None" by (simp add: map_of_eq_None_iff)
    from assms(2) have look: "map_of (fields c) name = Some (Default PyNone)"
      by (simp add: default_none_def)
    have g: "getattr m name = Some PyNone"
      using m nk look by (simp add: getattr_def map_of_init)
    have dist: "distinct (map fst (map (init_value kvs) (fields c)))"
      using distinct_field_names [of c] by (simp only: init_keys field_names_def)
    have "map_of (to_dict m) name = None"
      using g m dist by (simp add: getattr_def to_dict_distinct map_of_emitted del: to_dict.simps)
    then have "name \<notin> fst ` set (to_dict m)" by (simp add: map_of_eq_None_iff)
    with g show ?thesis by simp
  qed
  have c: "from_dict c (PyDict (dict_set kvs key v)) = Inl TypeError"
    if "key \<notin> set (field_names c)" for key v
  proof -
    have "(key, v) \<in> set (dict_set kvs key v)" by (induction kvs) auto
    with that assms(1) show ?thesis by (simp add: generic_from_dict dataclass_init_extra)
  qed
  from a b c show ?thesis by blast
qed

text \<open>\<^verbatim>\<open>SecretTag\<close> with and without \<^verbatim>\<open>"color": null\<close>, and with the unknown key \<^verbatim>\<open>colour\<close>.\<close>

theorem explicit_None_like_absent_witness:
  "generic SecretTag \<and> default_none SecretTag ''color'' \<and>
   from_dict SecretTag
     (PyDict (dict_set [(''id'', PyStr ''1''), (''slug'', PyStr ''s''), (''name'', PyStr ''n'')]
                ''color'' PyNone))
     = from_dict SecretTag
         (PyDict [(''id'', PyStr ''1''), (''slug'', PyStr ''s''), (''name'', PyStr ''n'')]) \<and>
   from_dict SecretTag
         (PyDict [(''id'', PyStr ''1''), (''slug'', PyStr ''s''), (''name'', PyStr ''n'')])
     = Inr (Model SecretTag (tag_kwargs ''1'' ''s'' ''n'' None)) \<and>
   getattr (Model SecretTag (tag_kwargs ''1'' ''s'' ''n'' None)) ''color'' = Some PyNone \<and>
   ''color'' \<notin> fst ` set (to_dict (Model SecretTag (tag_kwargs ''1'' ''s'' ''n'' None))) \<and>
   from_dict SecretTag
     (PyDict (dict_set [(''id'', PyStr ''1''), (''slug'', PyStr ''s''), (''name'', PyStr ''n'')]
                ''colour'' PyNone))
     = Inl TypeError"
proof -
  let ?kvs = "[(''id'', PyStr ''1''), (''slug'', PyStr ''s''), (''name'', PyStr ''n'')]"
  have g: "generic SecretTag" by (simp add: generic_def)
  have d: "default_none SecretTag ''color''" by (simp add: default_none_def)
  have f: "''color'' \<notin> fst ` set ?kvs" by simp
  have r: "from_dict SecretTag (PyDict ?kvs) = Inr (Model SecretTag (tag_kwargs ''1'' ''s'' ''n'' None))"
    by (simp add: dataclass_init_def field_names_def tag_kwargs_def)
  have n: "''colour'' \<notin> set (field_names SecretTag)" by (simp add: field_names_def)
  note t = explicit_None_like_absent [OF g d f]
  from t have t1: "from_dict SecretTag (PyDict (dict_set ?kvs ''color'' PyNone))
      = from_dict SecretTag (PyDict ?kvs)" by blast
  from t r have t2: "getattr (Model SecretTag (tag_kwargs ''1'' ''s'' ''n'' None)) ''color'' = Some PyNone \<and>
   ''color'' \<notin> fst ` set (to_dict (Model SecretTag (tag_kwargs ''1'' ''s'' ''n'' None)))" by blast
  from t n have t3: "from_dict SecretTag (PyDict (dict_set ?kvs ''colour'' PyNone)) = Inl TypeError"
    by blast
  from g d t1 r t2 t3 show ?thesis by blast
qed

text \<open>
  Claim C10 as it is written fails for an optional field whose default is not \<^verbatim>\<open>None\<close>:
  with \<^verbatim>\<open>"skipMultilineEncoding": null\<close> the round trip has no key
  \<^verbatim>\<open>skipMultilineEncoding\<close>, without the key it has \<^verbatim>\<open>skipMultilineEncoding: false\<close>.
\<close>

theorem explicit_None_skip_counterexample:
  "from_dict BaseSecret (PyDict (dict_set required_wire_fields ''skipMultilineEncoding'' PyNone))
     = Inr (secret_with_skip PyNone) \<and>
   from_dict BaseSecret (PyDict required_wire_fields) = Inr (secret_with_skip (PyBool False)) \<and>
   map_of (to_dict (secret_with_skip PyNone)) ''skipMultilineEncoding'' = None \<and>
   map_of (to_dict (secret_with_skip (PyBool False))) ''skipMultilineEncoding''
     = Some (PyBool False) \<and>
   \<not> py_eq (PyDict (to_dict (secret_with_skip PyNone)))
            (PyDict (to_dict (secret_with_skip (PyBool False))))"
  by (simp add: dataclass_init_def required_wire_fields_def secret_with_skip_def field_names_def)

end
